theory Spec2Isabelle
  imports Main
begin

section \<open>JavaScript values handled by the adapter\<close>

text \<open>
  The adapter of \<^verbatim>\<open>src/DynamoDB.js\<close> forwards attribute values without looking inside
  them, so their type is the parameter \<open>'v\<close>. Strings are lists of characters, one
  \<open>char\<close> standing for one code unit of the JavaScript string.

  A JavaScript object is the list of its own properties in the order \<^verbatim>\<open>Object.keys\<close>
  reports them; \<open>map_of\<close> reads a property, and \<open>None\<close> is \<^verbatim>\<open>undefined\<close>. Objects
  that the adapter builds are kept in insertion order. (JavaScript moves integer-like
  property names to the front; the adapter's own names all start with \<^verbatim>\<open>#\<close>, and the
  properties about objects it merges are stated on \<open>map_of\<close>, which ignores order.)
\<close>

type_synonym 'a object = "(string \<times> 'a) list"

text \<open>\<^verbatim>\<open>Object.keys(o)\<close>.\<close>

definition Object_keys :: "'a object \<Rightarrow> string list" where
  "Object_keys obj = map fst obj"

text \<open>
  \<^verbatim>\<open>o[k]\<close> on a plain object: the object's own property if it has one, else the
  member of that name which every plain object inherits from \<^verbatim>\<open>Object.prototype\<close> (a
  function, or the prototype itself for \<^verbatim>\<open>__proto__\<close>: a truthy value in each case),
  else \<^verbatim>\<open>undefined\<close>.
\<close>

definition Object_prototype_members :: "string list" where
  "Object_prototype_members =
     [''constructor'', ''__defineGetter__'', ''__defineSetter__'', ''hasOwnProperty'',
      ''__lookupGetter__'', ''__lookupSetter__'', ''isPrototypeOf'', ''propertyIsEnumerable'',
      ''toString'', ''valueOf'', ''__proto__'', ''toLocaleString'']"

datatype 'a property = Own 'a | Inherited string | Missing

definition read_property :: "'a object \<Rightarrow> string \<Rightarrow> 'a property" where
  "read_property obj k =
     (case map_of obj k of
        Some v \<Rightarrow> Own v
      | None \<Rightarrow> if k \<in> set Object_prototype_members then Inherited k else Missing)"

text \<open>\<^verbatim>\<open>o[k] = v\<close>: an existing property keeps its place, a new one goes last.\<close>

fun assign :: "'a object \<Rightarrow> string \<Rightarrow> 'a \<Rightarrow> 'a object" where
  "assign [] k v = [(k, v)]"
| "assign ((k', v') # ps) k v =
     (if k' = k then (k', v) # ps else (k', v') # assign ps k v)"

text \<open>\<^verbatim>\<open>{...target, ...src}\<close> is \<open>spread (spread [] target) src\<close>.\<close>

definition spread :: "'a object \<Rightarrow> 'a object \<Rightarrow> 'a object" where
  "spread target src = fold (\<lambda>(k, v) acc. assign acc k v) src target"

text \<open>
  An optional string argument (\<^verbatim>\<open>string|null\<close>) in a condition: \<^verbatim>\<open>null\<close> and the
  empty string are falsy.
\<close>

definition truthy :: "string option \<Rightarrow> bool" where
  "truthy s = (case s of None \<Rightarrow> False | Some str \<Rightarrow> str \<noteq> [])"

text \<open>\<^verbatim>\<open>key.slice(1)\<close> and the template \<^verbatim>\<open>`#${s}`\<close>.\<close>

definition slice1 :: "string \<Rightarrow> string" where
  "slice1 key = drop 1 key"

definition hash :: "string \<Rightarrow> string" where
  "hash s = CHR ''#'' # s"

text \<open>\<^verbatim>\<open>s.split(',')\<close>, \<^verbatim>\<open>s.trim()\<close> and \<^verbatim>\<open>xs.join(', ')\<close>, as \<^verbatim>\<open>batchGet\<close> uses them.\<close>

fun split_on :: "char \<Rightarrow> string \<Rightarrow> string list" where
  "split_on c [] = [[]]"
| "split_on c (x # xs) =
     (if x = c then [] # split_on c xs
      else (case split_on c xs of
              [] \<Rightarrow> [[x]]
            | w # ws \<Rightarrow> (x # w) # ws))"

definition is_space :: "char \<Rightarrow> bool" where
  "is_space c = (of_char c \<in> {9, 10, 11, 12, 13, 32, 160 :: nat})"

definition trim :: "string \<Rightarrow> string" where
  "trim s = rev (dropWhile is_space (rev (dropWhile is_space s)))"

fun join :: "string \<Rightarrow> string list \<Rightarrow> string" where
  "join sep [] = []"
| "join sep [x] = x"
| "join sep (x # y # ys) = x @ sep @ join sep (y # ys)"

section \<open>The remote service\<close>

text \<open>
  A write request of \<^verbatim>\<open>BatchWriteItem\<close>. The key that \<^verbatim>\<open>clearTable\<close> builds holds
  \<^verbatim>\<open>item.id\<close>, which is \<^verbatim>\<open>undefined\<close> (\<open>None\<close>) for an item without that attribute.
\<close>

datatype 'v write_request =
    PutRequest "'v object"
  | DeleteRequest "'v option object"

text \<open>The value stored under the table name in \<^verbatim>\<open>RequestItems\<close>.\<close>

datatype 'v request_items =
    KeysAndAttributes "'v object list" "string option" "string object option"
  | WriteRequests "'v write_request list"

text \<open>
  The response object of the client. The adapter reads \<^verbatim>\<open>res.Item\<close>, \<^verbatim>\<open>res.Items\<close>,
  \<^verbatim>\<open>res.Responses[table]\<close> and \<^verbatim>\<open>res.UnprocessedItems[table]\<close>; every property is
  optional, as in the client's declarations, and a missing one reads as \<^verbatim>\<open>undefined\<close>.
  The two maps are plain objects, read under the table name with \<open>read_property\<close>: for a
  table named like a member of \<^verbatim>\<open>Object.prototype\<close>, \<^verbatim>\<open>constructor\<close> for one, a map
  without an entry for the table yields that member.
\<close>

record 'v response =
  Item :: "'v object option"
  Items :: "'v object list option"
  Responses :: "'v object list object option"
  UnprocessedItems :: "'v write_request list object option"
  Attributes :: "'v object option"
  LastEvaluatedKey :: "'v object option"

text \<open>
  The \<^verbatim>\<open>params\<close> object of a command: a property that the adapter does not set is
  \<open>None\<close>.
\<close>

record 'v params =
  TableName :: "string option"
  IndexName :: "string option"
  Item :: "'v object option"
  Key :: "'v object option"
  RequestItems :: "'v request_items object option"
  ConditionExpression :: "string option"
  UpdateExpression :: "string option"
  KeyConditionExpression :: "string option"
  FilterExpression :: "string option"
  ExpressionAttributeNames :: "string object option"
  ExpressionAttributeValues :: "'v object option"
  ReturnValues :: "string option"

definition no_params :: "'v params" where
  "no_params = \<lparr>TableName = None, IndexName = None, Item = None, Key = None,
     RequestItems = None, ConditionExpression = None, UpdateExpression = None,
     KeyConditionExpression = None, FilterExpression = None,
     ExpressionAttributeNames = None, ExpressionAttributeValues = None,
     ReturnValues = None\<rparr>"

datatype 'v command =
    GetItemCommand "'v params"
  | BatchGetItemCommand "'v params"
  | PutItemCommand "'v params"
  | BatchWriteItemCommand "'v params"
  | QueryCommand "'v params"
  | ScanCommand "'v params"
  | UpdateItemCommand "'v params"
  | DeleteItemCommand "'v params"

text \<open>
  A failure of the remote service is an error object, as every exception of the client
  is; the adapter reads its \<^verbatim>\<open>name\<close> and, in development mode, prints it. (A
  rejection with \<^verbatim>\<open>null\<close> or \<^verbatim>\<open>undefined\<close>, which has no \<^verbatim>\<open>name\<close> to read, is
  not part of the model.)
\<close>

record remote_error =
  name :: string
  detail :: string

record HttpError =
  message :: string
  statusCode :: nat

text \<open>
  What a \<^verbatim>\<open>catch\<close> block of the adapter can receive: the rejection of
  \<^verbatim>\<open>client.send\<close>, an \<^verbatim>\<open>HttpError\<close> thrown inside the \<^verbatim>\<open>try\<close> block, or the
  \<^verbatim>\<open>TypeError\<close> of reading a property of \<^verbatim>\<open>undefined\<close>.
\<close>

datatype thrown =
    Rejected remote_error
  | Raised HttpError
  | TypeError

fun error_name :: "thrown \<Rightarrow> string" where
  "error_name (Rejected e) = name e"
| "error_name (Raised h) = ''HttpError''"
| "error_name TypeError = ''TypeError''"

text \<open>A line of diagnostic output: the stream, the text, and what is printed after it.\<close>

datatype stream = Console_log | Console_error

datatype 'v printed =
    Nothing
  | Error_object thrown
  | Unprocessed "'v write_request list"
  | Inherited_member string

type_synonym 'v log_line = "stream \<times> string \<times> 'v printed"

text \<open>
  The adapter instance: the client, as a function from a command and the state of the
  remote service to the outcome of \<^verbatim>\<open>send\<close> and the next state, and the
  development-mode flag.
\<close>

record ('s, 'v) DynamoDB =
  client :: "'v command \<Rightarrow> 's \<Rightarrow> (remote_error + 'v response) \<times> 's"
  dev :: bool

text \<open>
  The world an operation runs in: the state of the remote service, the commands sent
  so far and the console output so far.
\<close>

record ('s, 'v) run =
  remote :: 's
  sent :: "'v command list"
  console :: "'v log_line list"

definition send ::
  "('s, 'v) DynamoDB \<Rightarrow> 'v command \<Rightarrow> ('s, 'v) run \<Rightarrow> (thrown + 'v response) \<times> ('s, 'v) run" where
  "send db command w =
     (case client db command (remote w) of
        (outcome, s') \<Rightarrow>
          (case outcome of Inl e \<Rightarrow> Inl (Rejected e) | Inr res \<Rightarrow> Inr res,
           w\<lparr>remote := s', sent := sent w @ [command]\<rparr>))"

text \<open>\<^verbatim>\<open>if (this.dev) console.log(...)\<close>.\<close>

definition log_dev :: "('s, 'v) DynamoDB \<Rightarrow> 'v log_line \<Rightarrow> ('s, 'v) run \<Rightarrow> ('s, 'v) run" where
  "log_dev db line w = (if dev db then w\<lparr>console := console w @ [line]\<rparr> else w)"

text \<open>\<^verbatim>\<open>try { body } catch (error) { handler }\<close>, where the handler always throws.\<close>

definition try_catch ::
  "(('s, 'v) run \<Rightarrow> (thrown + 'a) \<times> ('s, 'v) run) \<Rightarrow>
   (thrown \<Rightarrow> ('s, 'v) run \<Rightarrow> HttpError \<times> ('s, 'v) run) \<Rightarrow>
   ('s, 'v) run \<Rightarrow> (HttpError + 'a) \<times> ('s, 'v) run" where
  "try_catch body handler w =
     (case body w of
        (Inr v, w') \<Rightarrow> (Inr v, w')
      | (Inl error, w') \<Rightarrow> (case handler error w' of (h, w'') \<Rightarrow> (Inl h, w'')))"

definition http_error :: "string \<Rightarrow> nat \<Rightarrow> HttpError" where
  "http_error msg code = \<lparr>message = msg, statusCode = code\<rparr>"

section \<open>The operations of the adapter\<close>

text \<open>
  Each operation is its parameter object, its \<^verbatim>\<open>try\<close> block and its \<^verbatim>\<open>catch\<close> block,
  under the names of the source. Two names are taken by the list library: the
  operation \<^verbatim>\<open>set\<close> is \<open>set_op\<close> here, and the argument \<^verbatim>\<open>filter\<close> is \<open>filter'\<close>.
  An optional argument that the caller leaves out is \<open>None\<close>.
\<close>

subsection \<open>set\<close>

definition set_params :: "string \<Rightarrow> 'v object \<Rightarrow> string option \<Rightarrow> 'v params" where
  "set_params table item condition =
     (let params = no_params\<lparr>TableName := Some table, Item := Some item\<rparr>
      in if truthy condition then params\<lparr>ConditionExpression := condition\<rparr> else params)"

definition set_try ::
  "('s, 'v) DynamoDB \<Rightarrow> string \<Rightarrow> 'v object \<Rightarrow> string option \<Rightarrow>
   ('s, 'v) run \<Rightarrow> (thrown + 'v object) \<times> ('s, 'v) run" where
  "set_try db table item condition w =
     (case send db (PutItemCommand (set_params table item condition)) w of
        (Inl error, w') \<Rightarrow> (Inl error, w')
      | (Inr res, w') \<Rightarrow> (Inr item, w'))"

definition set_catch ::
  "('s, 'v) DynamoDB \<Rightarrow> thrown \<Rightarrow> ('s, 'v) run \<Rightarrow> HttpError \<times> ('s, 'v) run" where
  "set_catch db error w =
     (if error_name error = ''ConditionalCheckFailedException''
      then (http_error ''Item already exists in database'' 409,
            log_dev db (Console_log, ''Item already exists in database'', Nothing) w)
      else (http_error ''Error setting item in database'' 500,
            log_dev db (Console_log, ''Error setting item in database: '', Error_object error) w))"

definition set_op ::
  "('s, 'v) DynamoDB \<Rightarrow> string \<Rightarrow> 'v object \<Rightarrow> string option \<Rightarrow>
   ('s, 'v) run \<Rightarrow> (HttpError + 'v object) \<times> ('s, 'v) run" where
  "set_op db table item condition =
     try_catch (set_try db table item condition) (set_catch db)"

subsection \<open>get\<close>

definition get_params :: "string \<Rightarrow> 'v object \<Rightarrow> 'v params" where
  "get_params table keys = no_params\<lparr>TableName := Some table, Key := Some keys\<rparr>"

definition get_try ::
  "('s, 'v) DynamoDB \<Rightarrow> string \<Rightarrow> 'v object \<Rightarrow>
   ('s, 'v) run \<Rightarrow> (thrown + 'v object) \<times> ('s, 'v) run" where
  "get_try db table keys w =
     (case send db (GetItemCommand (get_params table keys)) w of
        (Inl error, w') \<Rightarrow> (Inl error, w')
      | (Inr res, w') \<Rightarrow>
          (case response.Item res of
             None \<Rightarrow>
               (Inl (Raised (http_error ''Item not found in database'' 404)),
                log_dev db (Console_log, ''Item not found in database'', Nothing) w')
           | Some item \<Rightarrow> (Inr item, w')))"

definition get_catch ::
  "('s, 'v) DynamoDB \<Rightarrow> thrown \<Rightarrow> ('s, 'v) run \<Rightarrow> HttpError \<times> ('s, 'v) run" where
  "get_catch db error w =
     (let w' = log_dev db (Console_log, ''Error getting item from database: '', Error_object error) w
      in case error of
           Raised h \<Rightarrow> (h, w')
         | _ \<Rightarrow> (http_error ''Error getting item from database'' 500, w'))"

definition get ::
  "('s, 'v) DynamoDB \<Rightarrow> string \<Rightarrow> 'v object \<Rightarrow>
   ('s, 'v) run \<Rightarrow> (HttpError + 'v object) \<times> ('s, 'v) run" where
  "get db table keys = try_catch (get_try db table keys) (get_catch db)"

subsection \<open>batchGet\<close>

text \<open>
  The callback of \<^verbatim>\<open>projection.split(',').map(...)\<close>: it returns the placeholder and
  records it in \<^verbatim>\<open>attributeNames\<close>.
\<close>

definition projection_names :: "string \<Rightarrow> string list \<times> string object" where
  "projection_names projection =
     fold (\<lambda>attr (placeholders, attributeNames).
             let trimmedAttr = trim attr;
                 placeholder = hash trimmedAttr
             in (placeholders @ [placeholder], assign attributeNames placeholder trimmedAttr))
          (split_on CHR '','' projection) ([], [])"

definition batchGet_params :: "string \<Rightarrow> 'v object list \<Rightarrow> string option \<Rightarrow> 'v params" where
  "batchGet_params table keys projection =
     (case projection of
        None \<Rightarrow> no_params\<lparr>RequestItems := Some [(table, KeysAndAttributes keys None None)]\<rparr>
      | Some p \<Rightarrow>
          if truthy projection
          then (case projection_names p of
                  (placeholders, attributeNames) \<Rightarrow>
                    no_params\<lparr>RequestItems :=
                      Some [(table, KeysAndAttributes keys
                               (Some (join '', '' placeholders)) (Some attributeNames))]\<rparr>)
          else no_params\<lparr>RequestItems := Some [(table, KeysAndAttributes keys None None)]\<rparr>)"

definition batchGet_try ::
  "('s, 'v) DynamoDB \<Rightarrow> string \<Rightarrow> 'v object list \<Rightarrow> string option \<Rightarrow>
   ('s, 'v) run \<Rightarrow> (thrown + 'v object list property) \<times> ('s, 'v) run" where
  "batchGet_try db table keys projection w =
     (case send db (BatchGetItemCommand (batchGet_params table keys projection)) w of
        (Inl error, w') \<Rightarrow> (Inl error, w')
      | (Inr res, w') \<Rightarrow>
          (case Responses res of
             None \<Rightarrow> (Inl TypeError, w')
           | Some responses \<Rightarrow> (Inr (read_property responses table), w')))"

definition batchGet_catch ::
  "('s, 'v) DynamoDB \<Rightarrow> thrown \<Rightarrow> ('s, 'v) run \<Rightarrow> HttpError \<times> ('s, 'v) run" where
  "batchGet_catch db error w =
     (http_error ''Error getting batch items from database'' 500,
      log_dev db (Console_log, ''Error getting batch items from database: '', Error_object error) w)"

definition batchGet ::
  "('s, 'v) DynamoDB \<Rightarrow> string \<Rightarrow> 'v object list \<Rightarrow> string option \<Rightarrow>
   ('s, 'v) run \<Rightarrow> (HttpError + 'v object list property) \<times> ('s, 'v) run" where
  "batchGet db table keys projection =
     try_catch (batchGet_try db table keys projection) (batchGet_catch db)"

subsection \<open>batchWrite\<close>

definition batchWrite_params :: "string \<Rightarrow> 'v write_request list \<Rightarrow> 'v params" where
  "batchWrite_params table requests =
     no_params\<lparr>RequestItems := Some [(table, WriteRequests requests)]\<rparr>"

definition batchWrite_try ::
  "('s, 'v) DynamoDB \<Rightarrow> string \<Rightarrow> 'v write_request list \<Rightarrow>
   ('s, 'v) run \<Rightarrow> (thrown + 'v response) \<times> ('s, 'v) run" where
  "batchWrite_try db table requests w =
     (case send db (BatchWriteItemCommand (batchWrite_params table requests)) w of
        (Inl error, w') \<Rightarrow> (Inl error, w')
      | (Inr res, w') \<Rightarrow>
          (case UnprocessedItems res of
             None \<Rightarrow> (Inl TypeError, w')
           | Some unprocessed \<Rightarrow>
               (case read_property unprocessed table of
                  Own items \<Rightarrow>
                    (Inl (Raised (http_error ''Items unprocessed during the batch writing'' 500)),
                     log_dev db (Console_log, ''Unprocessed items:'', Unprocessed items) w')
                | Inherited member \<Rightarrow>
                    (Inl (Raised (http_error ''Items unprocessed during the batch writing'' 500)),
                     log_dev db (Console_log, ''Unprocessed items:'', Inherited_member member) w')
                | Missing \<Rightarrow>
                    (Inr res,
                     log_dev db (Console_log, ''All items processed successfully'', Nothing) w'))))"

definition batchWrite_catch ::
  "('s, 'v) DynamoDB \<Rightarrow> thrown \<Rightarrow> ('s, 'v) run \<Rightarrow> HttpError \<times> ('s, 'v) run" where
  "batchWrite_catch db error w =
     (let w' = log_dev db (Console_log, ''Error batch writing items in database: '', Error_object error) w
      in case error of
           Raised h \<Rightarrow> (h, w')
         | _ \<Rightarrow> (http_error ''Error batch writing items in database'' 500, w'))"

definition batchWrite ::
  "('s, 'v) DynamoDB \<Rightarrow> string \<Rightarrow> 'v write_request list \<Rightarrow>
   ('s, 'v) run \<Rightarrow> (HttpError + 'v response) \<times> ('s, 'v) run" where
  "batchWrite db table requests =
     try_catch (batchWrite_try db table requests) (batchWrite_catch db)"

subsection \<open>update\<close>

text \<open>The last argument is \<open>None\<close> when the caller leaves \<^verbatim>\<open>returnValues\<close> out.\<close>

definition update_params ::
  "string \<Rightarrow> 'v object \<Rightarrow> string \<Rightarrow> string object \<Rightarrow> 'v object \<Rightarrow> string option \<Rightarrow>
   string option \<Rightarrow> 'v params" where
  "update_params table keys updateExpression expressionAttributeNames
       expressionAttributeValues condition returnValues =
     (let params = no_params\<lparr>TableName := Some table, Key := Some keys,
            UpdateExpression := Some updateExpression,
            ExpressionAttributeNames := Some expressionAttributeNames,
            ExpressionAttributeValues := Some expressionAttributeValues,
            ReturnValues := Some (case returnValues of None \<Rightarrow> ''ALL_NEW'' | Some r \<Rightarrow> r)\<rparr>
      in if truthy condition then params\<lparr>ConditionExpression := condition\<rparr> else params)"

definition update_try ::
  "('s, 'v) DynamoDB \<Rightarrow> 'v params \<Rightarrow> ('s, 'v) run \<Rightarrow> (thrown + 'v response) \<times> ('s, 'v) run" where
  "update_try db params w =
     (case send db (UpdateItemCommand params) w of
        (Inl error, w') \<Rightarrow> (Inl error, w')
      | (Inr res, w') \<Rightarrow> (Inr res, w'))"

definition update_catch ::
  "('s, 'v) DynamoDB \<Rightarrow> thrown \<Rightarrow> ('s, 'v) run \<Rightarrow> HttpError \<times> ('s, 'v) run" where
  "update_catch db error w =
     (if error_name error = ''ConditionalCheckFailedException''
      then (http_error ''Condition not met for update operation'' 404,
            log_dev db (Console_log, ''Condition not met for update operation'', Nothing) w)
      else (http_error ''Error updating item in database'' 500,
            log_dev db (Console_log, ''Error updating item in database: '', Error_object error) w))"

definition update ::
  "('s, 'v) DynamoDB \<Rightarrow> string \<Rightarrow> 'v object \<Rightarrow> string \<Rightarrow> string object \<Rightarrow> 'v object \<Rightarrow>
   string option \<Rightarrow> string option \<Rightarrow>
   ('s, 'v) run \<Rightarrow> (HttpError + 'v response) \<times> ('s, 'v) run" where
  "update db table keys updateExpression expressionAttributeNames
       expressionAttributeValues condition returnValues =
     try_catch
       (update_try db (update_params table keys updateExpression expressionAttributeNames
                         expressionAttributeValues condition returnValues))
       (update_catch db)"

subsection \<open>delete\<close>

definition delete_params :: "string \<Rightarrow> 'v object \<Rightarrow> string option \<Rightarrow> 'v params" where
  "delete_params table keys condition =
     (let params = no_params\<lparr>TableName := Some table, Key := Some keys\<rparr>
      in if truthy condition then params\<lparr>ConditionExpression := condition\<rparr> else params)"

definition delete_try ::
  "('s, 'v) DynamoDB \<Rightarrow> string \<Rightarrow> 'v object \<Rightarrow> string option \<Rightarrow>
   ('s, 'v) run \<Rightarrow> (thrown + 'v object) \<times> ('s, 'v) run" where
  "delete_try db table keys condition w =
     (case send db (DeleteItemCommand (delete_params table keys condition)) w of
        (Inl error, w') \<Rightarrow> (Inl error, w')
      | (Inr res, w') \<Rightarrow> (Inr keys, w'))"

definition delete_catch ::
  "('s, 'v) DynamoDB \<Rightarrow> thrown \<Rightarrow> ('s, 'v) run \<Rightarrow> HttpError \<times> ('s, 'v) run" where
  "delete_catch db error w =
     (if error_name error = ''ConditionalCheckFailedException''
      then (http_error ''Condition not met for delete operation'' 404,
            log_dev db (Console_log, ''Condition not met for delete operation'', Nothing) w)
      else (http_error ''Error deleting item from database'' 500,
            log_dev db (Console_log, ''Error deleting item from database: '', Error_object error) w))"

definition delete ::
  "('s, 'v) DynamoDB \<Rightarrow> string \<Rightarrow> 'v object \<Rightarrow> string option \<Rightarrow>
   ('s, 'v) run \<Rightarrow> (HttpError + 'v object) \<times> ('s, 'v) run" where
  "delete db table keys condition =
     try_catch (delete_try db table keys condition) (delete_catch db)"

subsection \<open>query\<close>

text \<open>
  The attribute names that \<^verbatim>\<open>query\<close> and \<^verbatim>\<open>scan\<close> make from the filter values: the
  placeholders first, then one assignment for each placeholder and its index.
\<close>

definition filter_attribute_names :: "'v object \<Rightarrow> string object" where
  "filter_attribute_names filterValues =
     (let placeholders = map (\<lambda>key. hash (slice1 key)) (Object_keys filterValues)
      in fold (\<lambda>(placeholder, index) attributeNames.
                 assign attributeNames placeholder (slice1 (Object_keys filterValues ! index)))
              (zip placeholders [0 ..< length placeholders]) [])"

definition query_params ::
  "string \<Rightarrow> string \<Rightarrow> 'v object \<Rightarrow> string option \<Rightarrow> 'v object option \<Rightarrow> 'v params" where
  "query_params table condition keys filter' filterValues =
     (let params = no_params\<lparr>TableName := Some table,
            KeyConditionExpression := Some condition,
            ExpressionAttributeValues := Some keys\<rparr>
      in case filterValues of
           None \<Rightarrow> params
         | Some values \<Rightarrow>
             if truthy filter'
             then params\<lparr>ExpressionAttributeValues := Some (spread (spread [] keys) values),
                    FilterExpression := filter',
                    ExpressionAttributeNames := Some (filter_attribute_names values)\<rparr>
             else params)"

definition query_try ::
  "('s, 'v) DynamoDB \<Rightarrow> 'v params \<Rightarrow>
   ('s, 'v) run \<Rightarrow> (thrown + 'v object list option) \<times> ('s, 'v) run" where
  "query_try db params w =
     (case send db (QueryCommand params) w of
        (Inl error, w') \<Rightarrow> (Inl error, w')
      | (Inr res, w') \<Rightarrow> (Inr (Items res), w'))"

definition query_catch ::
  "('s, 'v) DynamoDB \<Rightarrow> thrown \<Rightarrow> ('s, 'v) run \<Rightarrow> HttpError \<times> ('s, 'v) run" where
  "query_catch db error w =
     (http_error ''Error querying item from database'' 500,
      log_dev db (Console_log, ''Error querying item from database: '', Error_object error) w)"

definition query ::
  "('s, 'v) DynamoDB \<Rightarrow> string \<Rightarrow> string \<Rightarrow> 'v object \<Rightarrow> string option \<Rightarrow> 'v object option \<Rightarrow>
   ('s, 'v) run \<Rightarrow> (HttpError + 'v object list option) \<times> ('s, 'v) run" where
  "query db table condition keys filter' filterValues =
     try_catch (query_try db (query_params table condition keys filter' filterValues))
       (query_catch db)"

subsection \<open>queryByGSI\<close>

definition queryByGSI_params ::
  "string \<Rightarrow> string \<Rightarrow> string \<Rightarrow> string object \<Rightarrow> 'v object \<Rightarrow> string option \<Rightarrow>
   'v object option \<Rightarrow> 'v params" where
  "queryByGSI_params table indexName condition attributeNames keys filter' filterValues =
     (let params = no_params\<lparr>TableName := Some table,
            IndexName := Some indexName,
            KeyConditionExpression := Some condition,
            ExpressionAttributeNames := Some attributeNames,
            ExpressionAttributeValues := Some keys\<rparr>
      in case filterValues of
           None \<Rightarrow> params
         | Some values \<Rightarrow>
             if truthy filter'
             then params\<lparr>ExpressionAttributeValues := Some (spread (spread [] keys) values),
                    FilterExpression := filter',
                    ExpressionAttributeNames :=
                      Some (fold (\<lambda>key names.
                                    let attributeName = slice1 key
                                    in assign names (hash attributeName) attributeName)
                                 (Object_keys values) (spread [] attributeNames))\<rparr>
             else params)"

definition queryByGSI_catch ::
  "('s, 'v) DynamoDB \<Rightarrow> thrown \<Rightarrow> ('s, 'v) run \<Rightarrow> HttpError \<times> ('s, 'v) run" where
  "queryByGSI_catch db error w =
     (http_error ''Error querying by GSI from database''
        (if error_name error = ''ConditionalCheckFailedException'' then 400 else 500),
      log_dev db (Console_error, ''Error querying by GSI:'', Error_object error) w)"

definition queryByGSI ::
  "('s, 'v) DynamoDB \<Rightarrow> string \<Rightarrow> string \<Rightarrow> string \<Rightarrow> string object \<Rightarrow> 'v object \<Rightarrow>
   string option \<Rightarrow> 'v object option \<Rightarrow>
   ('s, 'v) run \<Rightarrow> (HttpError + 'v object list option) \<times> ('s, 'v) run" where
  "queryByGSI db table indexName condition attributeNames keys filter' filterValues =
     try_catch
       (query_try db
          (queryByGSI_params table indexName condition attributeNames keys filter' filterValues))
       (queryByGSI_catch db)"

subsection \<open>scan\<close>

definition scan_params :: "string \<Rightarrow> string option \<Rightarrow> 'v object option \<Rightarrow> 'v params" where
  "scan_params table filter' filterValues =
     (let params = no_params\<lparr>TableName := Some table\<rparr>
      in case filterValues of
           None \<Rightarrow> params
         | Some values \<Rightarrow>
             if truthy filter'
             then params\<lparr>FilterExpression := filter',
                    ExpressionAttributeValues := Some values,
                    ExpressionAttributeNames := Some (filter_attribute_names values)\<rparr>
             else params)"

definition scan_try ::
  "('s, 'v) DynamoDB \<Rightarrow> string \<Rightarrow> string option \<Rightarrow> 'v object option \<Rightarrow>
   ('s, 'v) run \<Rightarrow> (thrown + 'v object list option) \<times> ('s, 'v) run" where
  "scan_try db table filter' filterValues w =
     (case send db (ScanCommand (scan_params table filter' filterValues)) w of
        (Inl error, w') \<Rightarrow> (Inl error, w')
      | (Inr res, w') \<Rightarrow> (Inr (Items res), w'))"

definition scan_catch ::
  "('s, 'v) DynamoDB \<Rightarrow> thrown \<Rightarrow> ('s, 'v) run \<Rightarrow> HttpError \<times> ('s, 'v) run" where
  "scan_catch db error w =
     (http_error ''Error scanning item from database'' 500,
      log_dev db (Console_log, ''Error scanning item from database: '', Error_object error) w)"

definition scan ::
  "('s, 'v) DynamoDB \<Rightarrow> string \<Rightarrow> string option \<Rightarrow> 'v object option \<Rightarrow>
   ('s, 'v) run \<Rightarrow> (HttpError + 'v object list option) \<times> ('s, 'v) run" where
  "scan db table filter' filterValues =
     try_catch (scan_try db table filter' filterValues) (scan_catch db)"

subsection \<open>clearTable\<close>

text \<open>The callback of \<^verbatim>\<open>items.map(...)\<close>.\<close>

definition delete_request :: "'v object \<Rightarrow> 'v write_request" where
  "delete_request item = DeleteRequest [(''id'', map_of item ''id'')]"

definition clearTable_try ::
  "('s, 'v) DynamoDB \<Rightarrow> string \<Rightarrow> ('s, 'v) run \<Rightarrow> (thrown + unit) \<times> ('s, 'v) run" where
  "clearTable_try db table w =
     (case send db (ScanCommand (no_params\<lparr>TableName := Some table\<rparr>)) w of
        (Inl error, w') \<Rightarrow> (Inl error, w')
      | (Inr res, w') \<Rightarrow>
          (case Items res of
             None \<Rightarrow> (Inl TypeError, w')
           | Some items \<Rightarrow>
               (case batchWrite db table (map delete_request items) w' of
                  (Inl h, w'') \<Rightarrow> (Inl (Raised h), w'')
                | (Inr written, w'') \<Rightarrow> (Inr (), w''))))"

definition clearTable_catch ::
  "('s, 'v) DynamoDB \<Rightarrow> thrown \<Rightarrow> ('s, 'v) run \<Rightarrow> HttpError \<times> ('s, 'v) run" where
  "clearTable_catch db error w =
     (http_error ''Error clearing table in database'' 500,
      log_dev db (Console_log, ''Error clearing table in database: '', Error_object error) w)"

definition clearTable ::
  "('s, 'v) DynamoDB \<Rightarrow> string \<Rightarrow> ('s, 'v) run \<Rightarrow> (HttpError + unit) \<times> ('s, 'v) run" where
  "clearTable db table = try_catch (clearTable_try db table) (clearTable_catch db)"

subsection \<open>What a run shows outside the console\<close>

text \<open>
  The returned value or thrown error, the state the remote service is left in, and the
  commands it received.
\<close>

definition outcome :: "'r \<times> ('s, 'v) run \<Rightarrow> 'r \<times> 's \<times> 'v command list" where
  "outcome r = (fst r, remote (snd r), sent (snd r))"

section \<open>Clients for the examples\<close>

text \<open>
  Three stand-ins for the client, with no state of their own: one rejects every
  command with an error of a given name, one resolves every command with a given
  response, and one resolves every scan with a given response and rejects every other
  command. They serve the concrete runs below.
\<close>

definition no_response :: "'v response" where
  "no_response = \<lparr>response.Item = None, Items = None, Responses = None,
     UnprocessedItems = None, Attributes = None, LastEvaluatedKey = None\<rparr>"

definition rejecting ::
  "string \<Rightarrow> 'v command \<Rightarrow> unit \<Rightarrow> (remote_error + 'v response) \<times> unit" where
  "rejecting n command s = (Inl \<lparr>name = n, detail = ''''\<rparr>, s)"

definition responding ::
  "'v response \<Rightarrow> 'v command \<Rightarrow> unit \<Rightarrow> (remote_error + 'v response) \<times> unit" where
  "responding res command s = (Inr res, s)"

definition scanning ::
  "'v response \<Rightarrow> string \<Rightarrow> 'v command \<Rightarrow> unit \<Rightarrow> (remote_error + 'v response) \<times> unit" where
  "scanning res n command s =
     (case command of
        ScanCommand p \<Rightarrow> (Inr res, s)
      | _ \<Rightarrow> (Inl \<lparr>name = n, detail = ''''\<rparr>, s))"

definition start :: "(unit, 'v) run" where
  "start = \<lparr>remote = (), sent = [], console = []\<rparr>"

section \<open>Sending, logging and objects\<close>

lemma send_rejected:
  "client db c (remote w) = (Inl e, s') \<Longrightarrow>
   send db c w = (Inl (Rejected e), w\<lparr>remote := s', sent := sent w @ [c]\<rparr>)"
  by (simp add: send_def)

lemma send_resolved:
  "client db c (remote w) = (Inr res, s') \<Longrightarrow>
   send db c w = (Inr res, w\<lparr>remote := s', sent := sent w @ [c]\<rparr>)"
  by (simp add: send_def)

lemma sent_log_dev: "sent (log_dev db line w) = sent w"
  by (simp add: log_dev_def)

lemma map_of_assign: "map_of (assign obj k v) = (map_of obj)(k \<mapsto> v)"
  by (induction obj) (auto simp add: fun_eq_iff)

text \<open>Spreading an object over another one: the properties of the second win.\<close>

lemma map_of_spread:
  "distinct (map fst src) \<Longrightarrow> map_of (spread target src) = map_of target ++ map_of src"
proof (induction src arbitrary: target)
  case Nil
  then show ?case by (simp add: spread_def)
next
  case (Cons p src)
  obtain k v where p: "p = (k, v)" by (cases p)
  from Cons.prems p have fresh: "k \<notin> fst ` set src" and d: "distinct (map fst src)"
    by auto
  have "map_of (spread target (p # src)) = map_of (spread (assign target k v) src)"
    by (simp add: spread_def p)
  also have "\<dots> = (map_of target)(k \<mapsto> v) ++ map_of src"
    using Cons.IH [OF d, of "assign target k v"] by (simp only: map_of_assign)
  also have "\<dots> = map_of target ++ map_of (p # src)"
    using fresh by (simp add: p map_add_upd_left dom_map_of_conv_image_fst)
  finally show ?case .
qed

text \<open>
  The two passes of \<^verbatim>\<open>query\<close> and \<^verbatim>\<open>scan\<close> over \<^verbatim>\<open>Object.keys(filterValues)\<close>
  amount to one pass that assigns \<^verbatim>\<open>#rest\<close> \<open>\<mapsto>\<close> \<^verbatim>\<open>rest\<close> for each key.
\<close>

lemma zip_index:
  "zip (map f ks) [0 ..< length ks] = map (\<lambda>i. (f (ks ! i), i)) [0 ..< length ks]"
  by (rule nth_equalityI) simp_all

lemma fold_index:
  "fold (\<lambda>i. g (ks ! i)) [0 ..< length ks] acc = fold g ks acc"
proof -
  have "fold g (map (\<lambda>i. ks ! i) [0 ..< length ks]) acc = fold g ks acc"
    by (simp add: map_nth)
  then show ?thesis by (simp add: fold_map comp_def)
qed

lemma filter_attribute_names_fold:
  "filter_attribute_names values =
     fold (\<lambda>key names. assign names (hash (slice1 key)) (slice1 key)) (Object_keys values) []"
proof -
  let ?ks = "Object_keys values"
  have "filter_attribute_names values =
          fold (\<lambda>i. (\<lambda>key names. assign names (hash (slice1 key)) (slice1 key)) (?ks ! i))
            [0 ..< length ?ks] []"
    by (simp add: filter_attribute_names_def Let_def zip_index fold_map comp_def)
  also have "\<dots> = fold (\<lambda>key names. assign names (hash (slice1 key)) (slice1 key)) ?ks []"
    by (rule fold_index)
  finally show ?thesis .
qed

lemma map_of_synthesized:
  "map_of (fold (\<lambda>key names. assign names (hash (slice1 key)) (slice1 key)) ks acc) n =
     (if n \<in> (\<lambda>key. hash (slice1 key)) ` set ks then Some (tl n) else map_of acc n)"
  by (induction ks arbitrary: acc) (auto simp add: map_of_assign hash_def)

section \<open>The commands an operation sends\<close>

lemma query_sent:
  "sent (snd (query db table condition keys filter' filterValues w)) =
     sent w @ [QueryCommand (query_params table condition keys filter' filterValues)]"
  by (simp add: query_def try_catch_def query_try_def query_catch_def send_def sent_log_dev
      split: prod.splits sum.splits)

lemma queryByGSI_sent:
  "sent (snd (queryByGSI db table indexName condition attributeNames keys filter' filterValues w)) =
     sent w @ [QueryCommand (queryByGSI_params table indexName condition attributeNames keys
                               filter' filterValues)]"
  by (simp add: queryByGSI_def try_catch_def query_try_def queryByGSI_catch_def send_def
      sent_log_dev split: prod.splits sum.splits)

lemma scan_sent:
  "sent (snd (scan db table filter' filterValues w)) =
     sent w @ [ScanCommand (scan_params table filter' filterValues)]"
  by (simp add: scan_def try_catch_def scan_try_def scan_catch_def send_def sent_log_dev
      split: prod.splits sum.splits)

lemma batchWrite_sent:
  "sent (snd (batchWrite db table requests w)) =
     sent w @ [BatchWriteItemCommand (batchWrite_params table requests)]"
  by (simp add: batchWrite_def try_catch_def batchWrite_try_def batchWrite_catch_def send_def
      sent_log_dev Let_def
      split: prod.splits sum.splits option.splits thrown.splits property.splits)

text \<open>The three ways \<^verbatim>\<open>clearTable\<close> can go, by what its scan comes back with.\<close>

lemma clearTable_rejected:
  assumes "client db (ScanCommand (no_params\<lparr>TableName := Some table\<rparr>)) (remote w) = (Inl e, s')"
  shows "clearTable db table w =
           (Inl (http_error ''Error clearing table in database'' 500),
            log_dev db (Console_log, ''Error clearing table in database: '', Error_object (Rejected e))
              (w\<lparr>remote := s', sent := sent w @ [ScanCommand (no_params\<lparr>TableName := Some table\<rparr>)]\<rparr>))"
  using send_rejected [OF assms]
  by (simp add: clearTable_def clearTable_try_def clearTable_catch_def try_catch_def)

lemma clearTable_no_items:
  assumes "client db (ScanCommand (no_params\<lparr>TableName := Some table\<rparr>)) (remote w) = (Inr res, s')"
    and "Items res = None"
  shows "clearTable db table w =
           (Inl (http_error ''Error clearing table in database'' 500),
            log_dev db (Console_log, ''Error clearing table in database: '', Error_object TypeError)
              (w\<lparr>remote := s', sent := sent w @ [ScanCommand (no_params\<lparr>TableName := Some table\<rparr>)]\<rparr>))"
  using send_resolved [OF assms(1)] assms(2)
  by (simp add: clearTable_def clearTable_try_def clearTable_catch_def try_catch_def)

lemma clearTable_items:
  assumes "client db (ScanCommand (no_params\<lparr>TableName := Some table\<rparr>)) (remote w) = (Inr res, s')"
    and "Items res = Some items"
  shows "fst (clearTable db table w) =
           (case fst (batchWrite db table (map delete_request items)
                        (w\<lparr>remote := s', sent := sent w @ [ScanCommand (no_params\<lparr>TableName := Some table\<rparr>)]\<rparr>)) of
              Inl h \<Rightarrow> Inl (http_error ''Error clearing table in database'' 500)
            | Inr written \<Rightarrow> Inr ())"
    and "sent (snd (clearTable db table w)) =
           sent w @ [ScanCommand (no_params\<lparr>TableName := Some table\<rparr>),
                     BatchWriteItemCommand (batchWrite_params table (map delete_request items))]"
proof -
  let ?scan = "ScanCommand (no_params\<lparr>TableName := Some table\<rparr>)"
  let ?w1 = "w\<lparr>remote := s', sent := sent w @ [?scan]\<rparr>"
  obtain r w2 where b: "batchWrite db table (map delete_request items) ?w1 = (r, w2)"
    by (cases "batchWrite db table (map delete_request items) ?w1")
  have s2: "sent w2 = sent ?w1 @ [BatchWriteItemCommand (batchWrite_params table (map delete_request items))]"
    using batchWrite_sent [of db table "map delete_request items" ?w1] b by simp
  show "fst (clearTable db table w) =
           (case fst (batchWrite db table (map delete_request items) ?w1) of
              Inl h \<Rightarrow> Inl (http_error ''Error clearing table in database'' 500)
            | Inr written \<Rightarrow> Inr ())"
    using send_resolved [OF assms(1)] assms(2) b
    by (simp add: clearTable_def clearTable_try_def clearTable_catch_def try_catch_def
        split: sum.splits)
  show "sent (snd (clearTable db table w)) =
           sent w @ [?scan, BatchWriteItemCommand (batchWrite_params table (map delete_request items))]"
    using send_resolved [OF assms(1)] assms(2) b s2
    by (simp add: clearTable_def clearTable_try_def clearTable_catch_def try_catch_def
        sent_log_dev split: sum.splits)
qed

text \<open>The ways \<^verbatim>\<open>batchWrite\<close> can go, by what its send comes back with.\<close>

lemma batchWrite_rejected:
  assumes "client db (BatchWriteItemCommand (batchWrite_params table requests)) (remote w) = (Inl e, s')"
  shows "fst (batchWrite db table requests w) =
           Inl (http_error ''Error batch writing items in database'' 500)"
  using send_rejected [OF assms]
  by (simp add: batchWrite_def try_catch_def batchWrite_try_def batchWrite_catch_def)

lemma batchWrite_no_map:
  assumes "client db (BatchWriteItemCommand (batchWrite_params table requests)) (remote w) = (Inr res, s')"
    and "UnprocessedItems res = None"
  shows "fst (batchWrite db table requests w) =
           Inl (http_error ''Error batch writing items in database'' 500)"
  using send_resolved [OF assms(1)] assms(2)
  by (simp add: batchWrite_def try_catch_def batchWrite_try_def batchWrite_catch_def)

lemma batchWrite_unprocessed:
  assumes "client db (BatchWriteItemCommand (batchWrite_params table requests)) (remote w) = (Inr res, s')"
    and "UnprocessedItems res = Some unprocessed"
    and "map_of unprocessed table = Some left"
  shows "fst (batchWrite db table requests w) =
           Inl (http_error ''Items unprocessed during the batch writing'' 500)"
  using send_resolved [OF assms(1)] assms(2,3)
  by (simp add: batchWrite_def try_catch_def batchWrite_try_def batchWrite_catch_def
      read_property_def)

lemma batchWrite_processed:
  assumes "client db (BatchWriteItemCommand (batchWrite_params table requests)) (remote w) = (Inr res, s')"
    and "UnprocessedItems res = Some unprocessed"
    and "map_of unprocessed table = None"
    and "table \<notin> set Object_prototype_members"
  shows "fst (batchWrite db table requests w) = Inr res"
  using send_resolved [OF assms(1)] assms(2,3,4)
  by (simp add: batchWrite_def try_catch_def batchWrite_try_def read_property_def)

text \<open>The requests and the parameters of the batch write of \<^verbatim>\<open>clearTable\<close>, written out.\<close>

lemma delete_requests:
  "map delete_request items = map (\<lambda>item. DeleteRequest [(''id'', map_of item ''id'')]) items"
  by (simp add: delete_request_def)

lemma delete_batch_params:
  "batchWrite_params table (map delete_request items) =
     no_params\<lparr>RequestItems :=
       Some [(table, WriteRequests
                (map (\<lambda>item. DeleteRequest [(''id'', map_of item ''id'')]) items))]\<rparr>"
  by (simp add: batchWrite_params_def delete_request_def)

section \<open>The development-mode flag, operation by operation\<close>

lemmas op_defs = try_catch_def send_def log_dev_def Let_def outcome_def

lemmas op_splits = prod.splits sum.splits option.splits thrown.splits property.splits

lemma set_op_dev:
  "outcome (set_op (db\<lparr>dev := d\<rparr>) table item condition w) =
   outcome (set_op db table item condition w)"
  by (simp add: set_op_def set_try_def set_catch_def op_defs split: op_splits)

lemma get_dev:
  "outcome (get (db\<lparr>dev := d\<rparr>) table keys w) = outcome (get db table keys w)"
  by (simp add: get_def get_try_def get_catch_def op_defs split: op_splits)

lemma batchGet_dev:
  "outcome (batchGet (db\<lparr>dev := d\<rparr>) table keys projection w) =
   outcome (batchGet db table keys projection w)"
  by (simp add: batchGet_def batchGet_try_def batchGet_catch_def op_defs split: op_splits)

lemma batchWrite_dev:
  "outcome (batchWrite (db\<lparr>dev := d\<rparr>) table requests w) =
   outcome (batchWrite db table requests w)"
  by (simp add: batchWrite_def batchWrite_try_def batchWrite_catch_def op_defs split: op_splits)

lemma update_dev:
  "outcome (update (db\<lparr>dev := d\<rparr>) table keys ue names vals condition returnValues w) =
   outcome (update db table keys ue names vals condition returnValues w)"
  by (simp add: update_def update_try_def update_catch_def op_defs split: op_splits)

lemma delete_dev:
  "outcome (delete (db\<lparr>dev := d\<rparr>) table keys condition w) =
   outcome (delete db table keys condition w)"
  by (simp add: delete_def delete_try_def delete_catch_def op_defs split: op_splits)

lemma query_dev:
  "outcome (query (db\<lparr>dev := d\<rparr>) table condition keys filter' filterValues w) =
   outcome (query db table condition keys filter' filterValues w)"
  by (simp add: query_def query_try_def query_catch_def op_defs split: op_splits)

lemma queryByGSI_dev:
  "outcome (queryByGSI (db\<lparr>dev := d\<rparr>) table indexName condition names keys filter' filterValues w) =
   outcome (queryByGSI db table indexName condition names keys filter' filterValues w)"
  by (simp add: queryByGSI_def query_try_def queryByGSI_catch_def op_defs split: op_splits)

lemma scan_dev:
  "outcome (scan (db\<lparr>dev := d\<rparr>) table filter' filterValues w) =
   outcome (scan db table filter' filterValues w)"
  by (simp add: scan_def scan_try_def scan_catch_def op_defs split: op_splits)

lemma clearTable_dev:
  "outcome (clearTable (db\<lparr>dev := d\<rparr>) table w) = outcome (clearTable db table w)"
  by (simp add: clearTable_def clearTable_try_def clearTable_catch_def
      batchWrite_def batchWrite_try_def batchWrite_catch_def op_defs split: op_splits)

lemma set_op_quiet:
  "\<not> dev db \<Longrightarrow> console (snd (set_op db table item condition w)) = console w"
  by (simp add: set_op_def set_try_def set_catch_def op_defs split: op_splits)

lemma get_quiet: "\<not> dev db \<Longrightarrow> console (snd (get db table keys w)) = console w"
  by (simp add: get_def get_try_def get_catch_def op_defs split: op_splits)

lemma batchGet_quiet:
  "\<not> dev db \<Longrightarrow> console (snd (batchGet db table keys projection w)) = console w"
  by (simp add: batchGet_def batchGet_try_def batchGet_catch_def op_defs split: op_splits)

lemma batchWrite_quiet:
  "\<not> dev db \<Longrightarrow> console (snd (batchWrite db table requests w)) = console w"
  by (simp add: batchWrite_def batchWrite_try_def batchWrite_catch_def op_defs split: op_splits)

lemma update_quiet:
  "\<not> dev db \<Longrightarrow>
   console (snd (update db table keys ue names vals condition returnValues w)) = console w"
  by (simp add: update_def update_try_def update_catch_def op_defs split: op_splits)

lemma delete_quiet:
  "\<not> dev db \<Longrightarrow> console (snd (delete db table keys condition w)) = console w"
  by (simp add: delete_def delete_try_def delete_catch_def op_defs split: op_splits)

lemma query_quiet:
  "\<not> dev db \<Longrightarrow>
   console (snd (query db table condition keys filter' filterValues w)) = console w"
  by (simp add: query_def query_try_def query_catch_def op_defs split: op_splits)

lemma queryByGSI_quiet:
  "\<not> dev db \<Longrightarrow>
   console (snd (queryByGSI db table indexName condition names keys filter' filterValues w)) =
     console w"
  by (simp add: queryByGSI_def query_try_def queryByGSI_catch_def op_defs split: op_splits)

lemma scan_quiet:
  "\<not> dev db \<Longrightarrow> console (snd (scan db table filter' filterValues w)) = console w"
  by (simp add: scan_def scan_try_def scan_catch_def op_defs split: op_splits)

lemma clearTable_quiet: "\<not> dev db \<Longrightarrow> console (snd (clearTable db table w)) = console w"
  by (simp add: clearTable_def clearTable_try_def clearTable_catch_def
      batchWrite_def batchWrite_try_def batchWrite_catch_def op_defs split: op_splits)

section \<open>Error statuses\<close>

text \<open>
  Claim C1. When the send of \<^verbatim>\<open>set\<close> fails, \<^verbatim>\<open>set\<close> throws: the error with status 409
  if the failure is named \<^verbatim>\<open>ConditionalCheckFailedException\<close>, the error with status 500
  for every other failure. It never returns the item then.
\<close>

theorem set_error_status:
  assumes "client db (PutItemCommand (set_params table item condition)) (remote w) = (Inl e, s')"
  shows "fst (set_op db table item condition w) =
           Inl (if name e = ''ConditionalCheckFailedException''
                then http_error ''Item already exists in database'' 409
                else http_error ''Error setting item in database'' 500)"
  using send_rejected [OF assms]
  by (simp add: set_op_def try_catch_def set_try_def set_catch_def)

text \<open>
  The second test of \<^verbatim>\<open>set\<close> (the item exists already), and a throttled write.
\<close>

theorem set_error_status_witness:
  "fst (set_op \<lparr>client = rejecting ''ConditionalCheckFailedException'', dev = False\<rparr>
          ''test'' [(''id'', ''test2''), (''name'', ''Jane'')] (Some ''attribute_not_exists(id)'')
          start)
     = Inl \<lparr>message = ''Item already exists in database'', statusCode = 409\<rparr>
   \<and> fst (set_op \<lparr>client = rejecting ''ThrottlingException'', dev = True\<rparr>
          ''test'' [(''id'', ''test2''), (''name'', ''Jane'')] None start)
     = Inl \<lparr>message = ''Error setting item in database'', statusCode = 500\<rparr>"
proof -
  let ?item = "[(''id'', ''test2''), (''name'', ''Jane'')]"
  let ?db1 = "\<lparr>client = rejecting ''ConditionalCheckFailedException'', dev = False\<rparr>
                :: (unit, string) DynamoDB"
  let ?db2 = "\<lparr>client = rejecting ''ThrottlingException'', dev = True\<rparr> :: (unit, string) DynamoDB"
  have h1: "client ?db1 (PutItemCommand (set_params ''test'' ?item (Some ''attribute_not_exists(id)'')))
              (remote start) = (Inl \<lparr>name = ''ConditionalCheckFailedException'', detail = ''''\<rparr>, ())"
    by (simp add: rejecting_def)
  have h2: "client ?db2 (PutItemCommand (set_params ''test'' ?item None)) (remote start) =
              (Inl \<lparr>name = ''ThrottlingException'', detail = ''''\<rparr>, ())"
    by (simp add: rejecting_def)
  show ?thesis
    using set_error_status [OF h1] set_error_status [OF h2]
    by (simp add: http_error_def)
qed

text \<open>
  Claim C2. When the send of \<^verbatim>\<open>get\<close> succeeds and the response has no item, the
  \<^verbatim>\<open>try\<close> block throws the error with status 404, the \<^verbatim>\<open>catch\<close> block throws every
  \<^verbatim>\<open>HttpError\<close> it receives again as it is, and so the caller gets that 404. When the
  send fails, \<^verbatim>\<open>get\<close> throws the error with status 500.
\<close>

theorem get_error_status:
  "(client db (GetItemCommand (get_params table keys)) (remote w) = (Inr res, s')
      \<and> response.Item res = None \<longrightarrow>
      fst (get_try db table keys w) = Inl (Raised (http_error ''Item not found in database'' 404))
    \<and> fst (get db table keys w) = Inl (http_error ''Item not found in database'' 404))
   \<and> fst (get_catch db (Raised h) w) = h
   \<and> (client db (GetItemCommand (get_params table keys)) (remote w) = (Inl e, s') \<longrightarrow>
      fst (get db table keys w) = Inl (http_error ''Error getting item from database'' 500))"
proof (intro conjI impI)
  assume a: "client db (GetItemCommand (get_params table keys)) (remote w) = (Inr res, s')
      \<and> response.Item res = None"
  then show "fst (get_try db table keys w) =
               Inl (Raised (http_error ''Item not found in database'' 404))"
    by (simp add: get_try_def send_resolved)
  from a show "fst (get db table keys w) = Inl (http_error ''Item not found in database'' 404)"
    by (simp add: get_def try_catch_def get_try_def get_catch_def send_resolved)
next
  show "fst (get_catch db (Raised h) w) = h"
    by (simp add: get_catch_def)
next
  assume "client db (GetItemCommand (get_params table keys)) (remote w) = (Inl e, s')"
  then show "fst (get db table keys w) = Inl (http_error ''Error getting item from database'' 500)"
    by (simp add: get_def try_catch_def get_try_def get_catch_def send_rejected)
qed

theorem get_error_status_witness:
  "fst (get \<lparr>client = responding no_response, dev = True\<rparr> ''test'' [(''id'', ''test3'')] start)
     = Inl \<lparr>message = ''Item not found in database'', statusCode = 404\<rparr>
   \<and> fst (get \<lparr>client = rejecting ''InternalServerError'', dev = True\<rparr>
            ''test'' [(''id'', ''test3'')] start)
     = Inl \<lparr>message = ''Error getting item from database'', statusCode = 500\<rparr>"
proof -
  let ?db1 = "\<lparr>client = responding no_response, dev = True\<rparr> :: (unit, string) DynamoDB"
  let ?db2 = "\<lparr>client = rejecting ''InternalServerError'', dev = True\<rparr> :: (unit, string) DynamoDB"
  have h1: "client ?db1 (GetItemCommand (get_params ''test'' [(''id'', ''test3'')])) (remote start) =
              (Inr no_response, ()) \<and> response.Item (no_response :: string response) = None"
    by (simp add: responding_def no_response_def)
  have h2: "client ?db2 (GetItemCommand (get_params ''test'' [(''id'', ''test3'')])) (remote start) =
              (Inl \<lparr>name = ''InternalServerError'', detail = ''''\<rparr>, ())"
    by (simp add: rejecting_def)
  show ?thesis
    using h1 h2
      get_error_status [where db = ?db1 and table = "''test''" and keys = "[(''id'', ''test3'')]"
        and w = start and res = no_response and s' = "()"]
      get_error_status [where db = ?db2 and table = "''test''" and keys = "[(''id'', ''test3'')]"
        and w = start and e = "\<lparr>name = ''InternalServerError'', detail = ''''\<rparr>" and s' = "()"]
    by (simp add: http_error_def)
qed

text \<open>
  Claim C3. When the send of \<^verbatim>\<open>update\<close> or of \<^verbatim>\<open>delete\<close> fails, the operation throws
  the error with status 404 if the failure is named \<^verbatim>\<open>ConditionalCheckFailedException\<close>,
  and the error with status 500 for every other failure.
\<close>

theorem update_delete_error_status:
  "(client db (UpdateItemCommand (update_params table keys updateExpression expressionAttributeNames
        expressionAttributeValues condition returnValues)) (remote w) = (Inl e, s') \<longrightarrow>
      fst (update db table keys updateExpression expressionAttributeNames
             expressionAttributeValues condition returnValues w) =
        Inl (if name e = ''ConditionalCheckFailedException''
             then http_error ''Condition not met for update operation'' 404
             else http_error ''Error updating item in database'' 500))
   \<and> (client db (DeleteItemCommand (delete_params table keys condition)) (remote w) = (Inl e, s') \<longrightarrow>
      fst (delete db table keys condition w) =
        Inl (if name e = ''ConditionalCheckFailedException''
             then http_error ''Condition not met for delete operation'' 404
             else http_error ''Error deleting item from database'' 500))"
  by (simp add: update_def update_try_def update_catch_def delete_def delete_try_def
      delete_catch_def try_catch_def send_rejected)

text \<open>
  The tests \<^verbatim>\<open>update item not found\<close> and \<^verbatim>\<open>delete item not found\<close>, and the same calls
  against a service that is down.
\<close>

theorem update_delete_error_status_witness:
  "fst (update \<lparr>client = rejecting ''ConditionalCheckFailedException'', dev = False\<rparr>
          ''test'' [(''id'', ''test14'')] ''set #name = :name'' [(''#name'', ''name'')]
          [('':name'', ''Jane'')] (Some ''attribute_exists(id)'') None start)
     = Inl \<lparr>message = ''Condition not met for update operation'', statusCode = 404\<rparr>
   \<and> fst (delete \<lparr>client = rejecting ''ConditionalCheckFailedException'', dev = False\<rparr>
          ''test'' [(''id'', ''test74'')] (Some ''attribute_exists(id)'') start)
     = Inl \<lparr>message = ''Condition not met for delete operation'', statusCode = 404\<rparr>
   \<and> fst (update \<lparr>client = rejecting ''ServiceUnavailable'', dev = False\<rparr>
          ''test'' [(''id'', ''test14'')] ''set #name = :name'' [(''#name'', ''name'')]
          [('':name'', ''Jane'')] (Some ''attribute_exists(id)'') None start)
     = Inl \<lparr>message = ''Error updating item in database'', statusCode = 500\<rparr>
   \<and> fst (delete \<lparr>client = rejecting ''ServiceUnavailable'', dev = False\<rparr>
          ''test'' [(''id'', ''test74'')] (Some ''attribute_exists(id)'') start)
     = Inl \<lparr>message = ''Error deleting item from database'', statusCode = 500\<rparr>"
proof -
  let ?db1 = "\<lparr>client = rejecting ''ConditionalCheckFailedException'', dev = False\<rparr>
                :: (unit, string) DynamoDB"
  let ?db2 = "\<lparr>client = rejecting ''ServiceUnavailable'', dev = False\<rparr> :: (unit, string) DynamoDB"
  show ?thesis
    using
      update_delete_error_status [where db = ?db1 and w = start and s' = "()"
        and e = "\<lparr>name = ''ConditionalCheckFailedException'', detail = ''''\<rparr>"
        and table = "''test''" and keys = "[(''id'', ''test14'')]"
        and updateExpression = "''set #name = :name''"
        and expressionAttributeNames = "[(''#name'', ''name'')]"
        and expressionAttributeValues = "[('':name'', ''Jane'')]"
        and condition = "Some ''attribute_exists(id)''" and returnValues = None]
      update_delete_error_status [where db = ?db1 and w = start and s' = "()"
        and e = "\<lparr>name = ''ConditionalCheckFailedException'', detail = ''''\<rparr>"
        and table = "''test''" and keys = "[(''id'', ''test74'')]"
        and condition = "Some ''attribute_exists(id)''"]
      update_delete_error_status [where db = ?db2 and w = start and s' = "()"
        and e = "\<lparr>name = ''ServiceUnavailable'', detail = ''''\<rparr>"
        and table = "''test''" and keys = "[(''id'', ''test14'')]"
        and updateExpression = "''set #name = :name''"
        and expressionAttributeNames = "[(''#name'', ''name'')]"
        and expressionAttributeValues = "[('':name'', ''Jane'')]"
        and condition = "Some ''attribute_exists(id)''" and returnValues = None]
      update_delete_error_status [where db = ?db2 and w = start and s' = "()"
        and e = "\<lparr>name = ''ServiceUnavailable'', detail = ''''\<rparr>"
        and table = "''test''" and keys = "[(''id'', ''test74'')]"
        and condition = "Some ''attribute_exists(id)''"]
    by (simp add: rejecting_def http_error_def)
qed

text \<open>
  Claim C4. When the send of \<^verbatim>\<open>batchWrite\<close> succeeds and the response lists unprocessed
  items under the table, the \<^verbatim>\<open>try\<close> block throws the error with status 500, the
  \<^verbatim>\<open>catch\<close> block throws every \<^verbatim>\<open>HttpError\<close> again as it is, and the caller gets that
  error. When the send fails, \<^verbatim>\<open>batchWrite\<close> throws the error with status 500. In
  every run \<^verbatim>\<open>batchWrite\<close> sends its command once and nothing else, and whatever it
  throws has status 500.
\<close>

theorem batchWrite_error_status:
  "(client db (BatchWriteItemCommand (batchWrite_params table requests)) (remote w) = (Inr res, s')
      \<and> UnprocessedItems res = Some unprocessed \<and> map_of unprocessed table = Some items \<longrightarrow>
      fst (batchWrite_try db table requests w) =
        Inl (Raised (http_error ''Items unprocessed during the batch writing'' 500))
      \<and> fst (batchWrite db table requests w) =
        Inl (http_error ''Items unprocessed during the batch writing'' 500))
   \<and> fst (batchWrite_catch db (Raised h) w) = h
   \<and> (client db (BatchWriteItemCommand (batchWrite_params table requests)) (remote w) = (Inl e, s') \<longrightarrow>
      fst (batchWrite db table requests w) =
        Inl (http_error ''Error batch writing items in database'' 500))
   \<and> sent (snd (batchWrite db table requests w)) =
        sent w @ [BatchWriteItemCommand (batchWrite_params table requests)]
   \<and> (\<forall>h'. fst (batchWrite db table requests w) = Inl h' \<longrightarrow> statusCode h' = 500)"
proof -
  let ?c = "BatchWriteItemCommand (batchWrite_params table requests)"
  obtain outcome s1 where o: "client db ?c (remote w) = (outcome, s1)"
    by (cases "client db ?c (remote w)")
  have status: "\<forall>h'. fst (batchWrite db table requests w) = Inl h' \<longrightarrow> statusCode h' = 500"
    using o
    by (auto simp add: batchWrite_def try_catch_def batchWrite_try_def batchWrite_catch_def send_def
        log_dev_def Let_def http_error_def
        split: sum.splits option.splits thrown.splits property.splits)
  have caught: "fst (batchWrite_catch db (Raised h) w) = h"
    by (simp add: batchWrite_catch_def Let_def)
  have unprocessed: "fst (batchWrite_try db table requests w) =
        Inl (Raised (http_error ''Items unprocessed during the batch writing'' 500))
      \<and> fst (batchWrite db table requests w) =
        Inl (http_error ''Items unprocessed during the batch writing'' 500)"
    if "client db ?c (remote w) = (Inr res, s') \<and> UnprocessedItems res = Some unprocessed
        \<and> map_of unprocessed table = Some items"
    using that
    by (simp add: batchWrite_def try_catch_def batchWrite_try_def batchWrite_catch_def
        send_resolved Let_def read_property_def)
  have rejected: "fst (batchWrite db table requests w) =
        Inl (http_error ''Error batch writing items in database'' 500)"
    if "client db ?c (remote w) = (Inl e, s')"
    using that
    by (simp add: batchWrite_def try_catch_def batchWrite_try_def batchWrite_catch_def
        send_rejected Let_def)
  from batchWrite_sent [of db table requests w] status caught unprocessed rejected
  show ?thesis by blast
qed

text \<open>A batch of two puts of which the service leaves the second unprocessed.\<close>

theorem batchWrite_error_status_witness:
  "fst (batchWrite
          \<lparr>client = responding (no_response\<lparr>UnprocessedItems :=
              Some [(''test'', [PutRequest [(''id'', ''test5''), (''name'', ''Jane'')]])]\<rparr>),
           dev = False\<rparr>
          ''test''
          [PutRequest [(''id'', ''test4''), (''name'', ''John'')],
           PutRequest [(''id'', ''test5''), (''name'', ''Jane'')]]
          start)
     = Inl \<lparr>message = ''Items unprocessed during the batch writing'', statusCode = 500\<rparr>
   \<and> length (sent (snd (batchWrite
          \<lparr>client = responding (no_response\<lparr>UnprocessedItems :=
              Some [(''test'', [PutRequest [(''id'', ''test5''), (''name'', ''Jane'')]])]\<rparr>),
           dev = False\<rparr>
          ''test''
          [PutRequest [(''id'', ''test4''), (''name'', ''John'')],
           PutRequest [(''id'', ''test5''), (''name'', ''Jane'')]]
          start))) = 1"
proof -
  let ?left = "[PutRequest [(''id'', ''test5''), (''name'', ''Jane'')]]"
  let ?res = "no_response\<lparr>UnprocessedItems := Some [(''test'', ?left)]\<rparr> :: string response"
  let ?db = "\<lparr>client = responding ?res, dev = False\<rparr> :: (unit, string) DynamoDB"
  let ?requests = "[PutRequest [(''id'', ''test4''), (''name'', ''John'')],
                    PutRequest [(''id'', ''test5''), (''name'', ''Jane'')]]"
  have h: "client ?db (BatchWriteItemCommand (batchWrite_params ''test'' ?requests)) (remote start) =
             (Inr ?res, ())
           \<and> UnprocessedItems ?res = Some [(''test'', ?left)]
           \<and> map_of [(''test'', ?left)] ''test'' = Some ?left"
    by (simp add: responding_def)
  show ?thesis
    using h batchWrite_error_status [where db = ?db and table = "''test''" and requests = ?requests
        and w = start and res = ?res and s' = "()" and unprocessed = "[(''test'', ?left)]"
        and items = ?left]
    by (simp add: http_error_def start_def)
qed

text \<open>
  Claim C5. When the send of \<^verbatim>\<open>queryByGSI\<close> fails, \<^verbatim>\<open>queryByGSI\<close> throws an error
  whose status is 400 if the failure is named \<^verbatim>\<open>ConditionalCheckFailedException\<close> and
  500 otherwise.
\<close>

theorem queryByGSI_error_status:
  assumes "client db (QueryCommand (queryByGSI_params table indexName condition attributeNames
              keys filter' filterValues)) (remote w) = (Inl e, s')"
  shows "fst (queryByGSI db table indexName condition attributeNames keys filter' filterValues w) =
           Inl (http_error ''Error querying by GSI from database''
                  (if name e = ''ConditionalCheckFailedException'' then 400 else 500))"
  using send_rejected [OF assms]
  by (simp add: queryByGSI_def try_catch_def query_try_def queryByGSI_catch_def)

text \<open>The query by index of the tests, against a client that rejects it.\<close>

theorem queryByGSI_error_status_witness:
  "fst (queryByGSI \<lparr>client = rejecting ''ConditionalCheckFailedException'', dev = False\<rparr>
          ''test'' ''name-index'' ''#name = :name'' [(''#name'', ''name'')] [('':name'', ''Jane'')]
          None None start)
     = Inl \<lparr>message = ''Error querying by GSI from database'', statusCode = 400\<rparr>
   \<and> fst (queryByGSI \<lparr>client = rejecting ''ResourceNotFoundException'', dev = False\<rparr>
          ''test'' ''name-index'' ''#name = :name'' [(''#name'', ''name'')] [('':name'', ''Jane'')]
          None None start)
     = Inl \<lparr>message = ''Error querying by GSI from database'', statusCode = 500\<rparr>"
proof -
  let ?db1 = "\<lparr>client = rejecting ''ConditionalCheckFailedException'', dev = False\<rparr>
                :: (unit, string) DynamoDB"
  let ?db2 = "\<lparr>client = rejecting ''ResourceNotFoundException'', dev = False\<rparr>
                :: (unit, string) DynamoDB"
  let ?p = "queryByGSI_params ''test'' ''name-index'' ''#name = :name'' [(''#name'', ''name'')]
              [('':name'', ''Jane'')] None None"
  have h1: "client ?db1 (QueryCommand ?p) (remote start) =
              (Inl \<lparr>name = ''ConditionalCheckFailedException'', detail = ''''\<rparr>, ())"
    by (simp add: rejecting_def)
  have h2: "client ?db2 (QueryCommand ?p) (remote start) =
              (Inl \<lparr>name = ''ResourceNotFoundException'', detail = ''''\<rparr>, ())"
    by (simp add: rejecting_def)
  show ?thesis
    using queryByGSI_error_status [OF h1] queryByGSI_error_status [OF h2]
    by (simp add: http_error_def)
qed

section \<open>Filter values\<close>

text \<open>
  Claim C6, as stated, asks for the attribute names and the merged values whenever
  filter values are supplied. Without a filter expression nothing of the kind is built:
  the query below is sent with its key values alone and without attribute names, the
  query by index with the caller's attribute names alone, the scan with neither.
\<close>

theorem filter_values_without_filter_counterexample:
  "ExpressionAttributeNames
     (query_params ''test'' ''id = :id'' [('':id'', ''test1'')] None (Some [('':name'', ''Jane'')]))
     = None
   \<and> ExpressionAttributeValues
     (query_params ''test'' ''id = :id'' [('':id'', ''test1'')] None (Some [('':name'', ''Jane'')]))
     = Some [('':id'', ''test1'')]
   \<and> ExpressionAttributeNames
     (queryByGSI_params ''test'' ''name-index'' ''#name = :name'' [(''#name'', ''name'')]
        [('':name'', ''Jane'')] None (Some [('':age'', ''30'')]))
     = Some [(''#name'', ''name'')]
   \<and> ExpressionAttributeNames (scan_params ''test'' None (Some [('':name'', ''Jane'')])) = None
   \<and> ExpressionAttributeValues (scan_params ''test'' None (Some [('':name'', ''Jane'')])) = None"
  by (simp add: query_params_def queryByGSI_params_def scan_params_def truthy_def no_params_def)

text \<open>
  Claim C6, amended. Let filter values be supplied together with a truthy filter
  expression (and let every object name each of its properties once, as JavaScript
  objects do). Then the command that is sent carries attribute names and values as
  follows.
  \<^item> In \<^verbatim>\<open>query\<close> and \<^verbatim>\<open>scan\<close> the attribute names hold, for each key \<open>k\<close> of the filter
    values, the entry \<^verbatim>\<open>#\<close>\<open>rest \<mapsto> rest\<close>, where \<open>rest\<close> is \<open>k\<close> without its first
    character, and nothing else.
  \<^item> In \<^verbatim>\<open>queryByGSI\<close> they hold these entries, and the caller's attribute names under
    every other name.
  \<^item> In \<^verbatim>\<open>query\<close> and \<^verbatim>\<open>queryByGSI\<close> the attribute values are the key values overlaid
    with the filter values; in \<^verbatim>\<open>scan\<close>, which has no key values, they are the filter
    values.
\<close>

theorem filter_values_translation:
  assumes "truthy filter'"
    and "distinct (Object_keys keys)" and "distinct (Object_keys values)"
    and "distinct (Object_keys attributeNames)"
  shows
    "sent (snd (query db table condition keys filter' (Some values) w)) =
       sent w @ [QueryCommand (query_params table condition keys filter' (Some values))]
   \<and> (case ExpressionAttributeNames (query_params table condition keys filter' (Some values)) of
         None \<Rightarrow> False
       | Some names \<Rightarrow>
           (\<forall>k \<in> set (Object_keys values). map_of names (CHR ''#'' # drop 1 k) = Some (drop 1 k))
         \<and> dom (map_of names) = (\<lambda>k. CHR ''#'' # drop 1 k) ` set (Object_keys values))
   \<and> map_option map_of
         (ExpressionAttributeValues (query_params table condition keys filter' (Some values))) =
       Some (map_of keys ++ map_of values)
   \<and> sent (snd (queryByGSI db table indexName condition attributeNames keys filter' (Some values) w)) =
       sent w @ [QueryCommand (queryByGSI_params table indexName condition attributeNames keys
                                 filter' (Some values))]
   \<and> (case ExpressionAttributeNames (queryByGSI_params table indexName condition attributeNames
                                       keys filter' (Some values)) of
         None \<Rightarrow> False
       | Some names \<Rightarrow>
           (\<forall>k \<in> set (Object_keys values). map_of names (CHR ''#'' # drop 1 k) = Some (drop 1 k))
         \<and> (\<forall>n. n \<notin> (\<lambda>k. CHR ''#'' # drop 1 k) ` set (Object_keys values) \<longrightarrow>
                  map_of names n = map_of attributeNames n))
   \<and> map_option map_of
         (ExpressionAttributeValues (queryByGSI_params table indexName condition attributeNames
                                       keys filter' (Some values))) =
       Some (map_of keys ++ map_of values)
   \<and> sent (snd (scan db table filter' (Some values) w)) =
       sent w @ [ScanCommand (scan_params table filter' (Some values))]
   \<and> (case ExpressionAttributeNames (scan_params table filter' (Some values)) of
         None \<Rightarrow> False
       | Some names \<Rightarrow>
           (\<forall>k \<in> set (Object_keys values). map_of names (CHR ''#'' # drop 1 k) = Some (drop 1 k))
         \<and> dom (map_of names) = (\<lambda>k. CHR ''#'' # drop 1 k) ` set (Object_keys values))
   \<and> ExpressionAttributeValues (scan_params table filter' (Some values)) = Some values"
proof -
  let ?synth = "(\<lambda>k. CHR ''#'' # drop 1 k) ` set (Object_keys values)"
  let ?names = "filter_attribute_names values"
  let ?gsi = "fold (\<lambda>key names. assign names (hash (slice1 key)) (slice1 key))
                (Object_keys values) (spread [] attributeNames)"
  let ?vals = "spread (spread [] keys) values"
  have names: "map_of ?names n = (if n \<in> ?synth then Some (tl n) else None)" for n
    using map_of_synthesized [of "Object_keys values" "[]" n]
    by (simp add: filter_attribute_names_fold hash_def slice1_def)
  have entries: "\<forall>k \<in> set (Object_keys values). map_of ?names (CHR ''#'' # drop 1 k) = Some (drop 1 k)"
    by (simp add: names)
  have domain: "dom (map_of ?names) = ?synth"
    by (auto simp add: dom_def names)
  have gsi: "map_of ?gsi n = (if n \<in> ?synth then Some (tl n) else map_of attributeNames n)" for n
    using map_of_synthesized [of "Object_keys values" "spread [] attributeNames" n] assms(4)
    by (simp add: hash_def slice1_def map_of_spread Object_keys_def)
  have gsi_entries: "\<forall>k \<in> set (Object_keys values). map_of ?gsi (CHR ''#'' # drop 1 k) = Some (drop 1 k)"
    by (simp add: gsi)
  have gsi_rest: "\<forall>n. n \<notin> ?synth \<longrightarrow> map_of ?gsi n = map_of attributeNames n"
    by (simp add: gsi)
  have vals: "map_of ?vals = map_of keys ++ map_of values"
    using assms(2,3) by (simp add: map_of_spread Object_keys_def)
  have q: "ExpressionAttributeNames (query_params table condition keys filter' (Some values)) = Some ?names"
    and qv: "ExpressionAttributeValues (query_params table condition keys filter' (Some values)) = Some ?vals"
    using assms(1) by (simp_all add: query_params_def)
  have g: "ExpressionAttributeNames (queryByGSI_params table indexName condition attributeNames keys
             filter' (Some values)) = Some ?gsi"
    and gv: "ExpressionAttributeValues (queryByGSI_params table indexName condition attributeNames keys
             filter' (Some values)) = Some ?vals"
    using assms(1) by (simp_all add: queryByGSI_params_def Let_def)
  have s: "ExpressionAttributeNames (scan_params table filter' (Some values)) = Some ?names"
    and sv: "ExpressionAttributeValues (scan_params table filter' (Some values)) = Some values"
    using assms(1) by (simp_all add: scan_params_def)
  show ?thesis
    unfolding q qv g gv s sv query_sent queryByGSI_sent scan_sent
    using entries domain gsi_entries gsi_rest vals by simp
qed

text \<open>
  The filtered query of the tests, the same call by index with a caller's name for
  \<^verbatim>\<open>#id\<close>, and a scan: the entry \<^verbatim>\<open>#name\<close> \<open>\<mapsto>\<close> \<^verbatim>\<open>name\<close> is made from \<^verbatim>\<open>:name\<close>.
\<close>

theorem filter_values_translation_witness:
  "truthy (Some ''#name = :name'')
   \<and> ExpressionAttributeNames
       (query_params ''test'' ''id = :id'' [('':id'', ''test1'')]
          (Some ''#name = :name'') (Some [('':name'', ''Jane'')]))
     = Some [(''#name'', ''name'')]
   \<and> map_option map_of
       (ExpressionAttributeValues
          (query_params ''test'' ''id = :id'' [('':id'', ''test1'')]
             (Some ''#name = :name'') (Some [('':name'', ''Jane'')])))
     = Some (map_of [('':id'', ''test1'')] ++ map_of [('':name'', ''Jane'')])
   \<and> ExpressionAttributeNames
       (queryByGSI_params ''test'' ''id-index'' ''#id = :id'' [(''#id'', ''id'')]
          [('':id'', ''test1'')] (Some ''#name = :name'') (Some [('':name'', ''Jane'')]))
     = Some [(''#id'', ''id''), (''#name'', ''name'')]
   \<and> ExpressionAttributeValues
       (scan_params ''test'' (Some ''#name = :name'') (Some [('':name'', ''Jane'')]))
     = Some [('':name'', ''Jane'')]"
proof -
  let ?db = "\<lparr>client = responding no_response, dev = False\<rparr> :: (unit, string) DynamoDB"
  have h1: "truthy (Some ''#name = :name'')"
    by (simp add: truthy_def)
  have h2: "distinct (Object_keys [('':id'', ''test1'')])"
    by (simp add: Object_keys_def)
  have h3: "distinct (Object_keys [('':name'', ''Jane'')])"
    by (simp add: Object_keys_def)
  have h4: "distinct (Object_keys [(''#id'', ''id'')])"
    by (simp add: Object_keys_def)
  note inst = filter_values_translation [OF h1 h2 h3 h4, where db = ?db and table = "''test''"
      and condition = "''id = :id''" and indexName = "''id-index''" and w = start]
  have v: "map_option map_of
       (ExpressionAttributeValues
          (query_params ''test'' ''id = :id'' [('':id'', ''test1'')]
             (Some ''#name = :name'') (Some [('':name'', ''Jane'')])))
     = Some (map_of [('':id'', ''test1'')] ++ map_of [('':name'', ''Jane'')])"
    by (rule inst [THEN conjunct2, THEN conjunct2, THEN conjunct1])
  have s: "ExpressionAttributeValues
             (scan_params ''test'' (Some ''#name = :name'') (Some [('':name'', ''Jane'')]))
           = Some [('':name'', ''Jane'')]"
    using inst by (elim conjE)
  have q: "ExpressionAttributeNames
             (query_params ''test'' ''id = :id'' [('':id'', ''test1'')]
                (Some ''#name = :name'') (Some [('':name'', ''Jane'')]))
           = Some [(''#name'', ''name'')]"
    by (simp add: query_params_def truthy_def filter_attribute_names_def Object_keys_def
        slice1_def hash_def)
  have n: "ExpressionAttributeNames
             (queryByGSI_params ''test'' ''id-index'' ''#id = :id'' [(''#id'', ''id'')]
                [('':id'', ''test1'')] (Some ''#name = :name'') (Some [('':name'', ''Jane'')]))
           = Some [(''#id'', ''id''), (''#name'', ''name'')]"
    by (simp add: queryByGSI_params_def truthy_def spread_def Object_keys_def slice1_def hash_def
        Let_def)
  from h1 v n q s show ?thesis by (intro conjI)
qed

text \<open>
  Claim C9. When the filter expression is falsy or the filter values are missing,
  \<^verbatim>\<open>query\<close>, \<^verbatim>\<open>queryByGSI\<close> and \<^verbatim>\<open>scan\<close> build the parameters they would build with
  neither: no filter expression, no filter values, no names made from them. When both
  are there, the filter expression is part of the parameters. In each case these
  parameters are what the one command sent carries.
\<close>

theorem filter_needs_both:
  "(\<not> (truthy filter' \<and> filterValues \<noteq> None) \<longrightarrow>
      query_params table condition keys filter' filterValues =
        no_params\<lparr>TableName := Some table, KeyConditionExpression := Some condition,
          ExpressionAttributeValues := Some keys\<rparr>
    \<and> queryByGSI_params table indexName condition attributeNames keys filter' filterValues =
        no_params\<lparr>TableName := Some table, IndexName := Some indexName,
          KeyConditionExpression := Some condition,
          ExpressionAttributeNames := Some attributeNames,
          ExpressionAttributeValues := Some keys\<rparr>
    \<and> scan_params table filter' filterValues = no_params\<lparr>TableName := Some table\<rparr>)
 \<and> (truthy filter' \<and> filterValues \<noteq> None \<longrightarrow>
      FilterExpression (query_params table condition keys filter' filterValues) = filter'
    \<and> FilterExpression (queryByGSI_params table indexName condition attributeNames keys
                           filter' filterValues) = filter'
    \<and> FilterExpression (scan_params table filter' filterValues) = filter'
    \<and> ExpressionAttributeValues (scan_params table filter' filterValues) = filterValues)
 \<and> sent (snd (query db table condition keys filter' filterValues w)) =
      sent w @ [QueryCommand (query_params table condition keys filter' filterValues)]
 \<and> sent (snd (queryByGSI db table indexName condition attributeNames keys filter' filterValues w)) =
      sent w @ [QueryCommand (queryByGSI_params table indexName condition attributeNames keys
                                filter' filterValues)]
 \<and> sent (snd (scan db table filter' filterValues w)) =
      sent w @ [ScanCommand (scan_params table filter' filterValues)]"
  by (auto simp add: query_params_def queryByGSI_params_def scan_params_def Let_def
      query_sent queryByGSI_sent scan_sent split: option.splits)

text \<open>
  Filter values without a filter expression, and a filter expression without filter
  values: the command sent is the one of the unfiltered call.
\<close>

theorem filter_needs_both_witness:
  "sent (snd (query \<lparr>client = responding no_response, dev = False\<rparr>
                ''test'' ''id = :id'' [('':id'', ''test1'')] None (Some [('':name'', ''Jane'')]) start))
     = sent (snd (query \<lparr>client = responding no_response, dev = False\<rparr>
                ''test'' ''id = :id'' [('':id'', ''test1'')] None None start))
   \<and> sent (snd (scan \<lparr>client = responding no_response, dev = False\<rparr>
                ''test'' (Some ''#name = :name'') None start))
     = [ScanCommand (no_params\<lparr>TableName := Some ''test''\<rparr>) :: string command]"
proof -
  let ?db = "\<lparr>client = responding no_response, dev = False\<rparr> :: (unit, string) DynamoDB"
  have h1: "\<not> (truthy None \<and> Some [('':name'', ''Jane'')] \<noteq> None)"
    by (simp add: truthy_def)
  have h2: "\<not> (truthy None \<and> (None :: string object option) \<noteq> None)"
    by simp
  have h3: "\<not> (truthy (Some ''#name = :name'') \<and> (None :: string object option) \<noteq> None)"
    by simp
  show ?thesis
    using h1 h2 h3
      filter_needs_both [where db = ?db and w = start and table = "''test''"
        and condition = "''id = :id''" and keys = "[('':id'', ''test1'')]"
        and filter' = None and filterValues = "Some [('':name'', ''Jane'')]"]
      filter_needs_both [where db = ?db and w = start and table = "''test''"
        and condition = "''id = :id''" and keys = "[('':id'', ''test1'')]"
        and filter' = None and filterValues = None]
      filter_needs_both [where db = ?db and w = start and table = "''test''"
        and filter' = "Some ''#name = :name''" and filterValues = None]
    by (simp add: start_def)
qed

section \<open>clearTable\<close>

text \<open>
  Claim C7. \<^verbatim>\<open>clearTable\<close> first sends one scan of the table, with the table name as its
  only parameter. If the scan fails, or comes back without a list of items, nothing
  more is sent and the error with status 500 is thrown. If it comes back with a list
  of items, whatever else the response holds, one batch write follows and nothing
  after it: its only parameter holds, under the table name, the list that has for each
  item of the scan, in order, the delete request for the key made of the item's \<^verbatim>\<open>id\<close>.
  Then \<^verbatim>\<open>clearTable\<close> throws the error with status 500 if the batch write is rejected,
  if its response names unprocessed items for the table, if its response has no map
  of unprocessed items, and whenever else \<^verbatim>\<open>batchWrite\<close> throws; it returns if the
  response names no unprocessed items for the table. Whatever \<^verbatim>\<open>clearTable\<close> throws is
  that error with status 500.
\<close>

theorem clearTable_scan_then_batch_delete:
  "(client db (ScanCommand (no_params\<lparr>TableName := Some table\<rparr>)) (remote w) = (Inl e, s') \<longrightarrow>
      sent (snd (clearTable db table w)) = sent w @ [ScanCommand (no_params\<lparr>TableName := Some table\<rparr>)]
    \<and> fst (clearTable db table w) =
        Inl \<lparr>message = ''Error clearing table in database'', statusCode = 500\<rparr>)
 \<and> (client db (ScanCommand (no_params\<lparr>TableName := Some table\<rparr>)) (remote w) = (Inr res, s')
      \<and> Items res = None \<longrightarrow>
      sent (snd (clearTable db table w)) = sent w @ [ScanCommand (no_params\<lparr>TableName := Some table\<rparr>)]
    \<and> fst (clearTable db table w) =
        Inl \<lparr>message = ''Error clearing table in database'', statusCode = 500\<rparr>)
 \<and> (client db (ScanCommand (no_params\<lparr>TableName := Some table\<rparr>)) (remote w) = (Inr res, s')
      \<and> Items res = Some items \<longrightarrow>
      sent (snd (clearTable db table w)) =
        sent w @
        [ScanCommand (no_params\<lparr>TableName := Some table\<rparr>),
         BatchWriteItemCommand
           (no_params\<lparr>RequestItems :=
              Some [(table, WriteRequests
                       (map (\<lambda>item. DeleteRequest [(''id'', map_of item ''id'')]) items))]\<rparr>)]
    \<and> (client db
          (BatchWriteItemCommand
             (no_params\<lparr>RequestItems :=
                Some [(table, WriteRequests
                         (map (\<lambda>item. DeleteRequest [(''id'', map_of item ''id'')]) items))]\<rparr>))
          s' = (Inl e', s'') \<longrightarrow>
        fst (clearTable db table w) =
          Inl \<lparr>message = ''Error clearing table in database'', statusCode = 500\<rparr>)
    \<and> (client db
          (BatchWriteItemCommand
             (no_params\<lparr>RequestItems :=
                Some [(table, WriteRequests
                         (map (\<lambda>item. DeleteRequest [(''id'', map_of item ''id'')]) items))]\<rparr>))
          s' = (Inr res', s'')
        \<and> UnprocessedItems res' = Some unprocessed \<and> map_of unprocessed table = Some left \<longrightarrow>
        fst (clearTable db table w) =
          Inl \<lparr>message = ''Error clearing table in database'', statusCode = 500\<rparr>)
    \<and> (client db
          (BatchWriteItemCommand
             (no_params\<lparr>RequestItems :=
                Some [(table, WriteRequests
                         (map (\<lambda>item. DeleteRequest [(''id'', map_of item ''id'')]) items))]\<rparr>))
          s' = (Inr res', s'')
        \<and> UnprocessedItems res' = None \<longrightarrow>
        fst (clearTable db table w) =
          Inl \<lparr>message = ''Error clearing table in database'', statusCode = 500\<rparr>)
    \<and> (client db
          (BatchWriteItemCommand
             (no_params\<lparr>RequestItems :=
                Some [(table, WriteRequests
                         (map (\<lambda>item. DeleteRequest [(''id'', map_of item ''id'')]) items))]\<rparr>))
          s' = (Inr res', s'')
        \<and> UnprocessedItems res' = Some unprocessed \<and> map_of unprocessed table = None
        \<and> table \<notin> set Object_prototype_members \<longrightarrow>
        fst (clearTable db table w) = Inr ())
    \<and> fst (clearTable db table w) =
        (case fst (batchWrite db table
                     (map (\<lambda>item. DeleteRequest [(''id'', map_of item ''id'')]) items)
                     (w\<lparr>remote := s', sent := sent w @ [ScanCommand (no_params\<lparr>TableName := Some table\<rparr>)]\<rparr>)) of
           Inl h \<Rightarrow> Inl \<lparr>message = ''Error clearing table in database'', statusCode = 500\<rparr>
         | Inr written \<Rightarrow> Inr ()))
 \<and> (\<forall>h. fst (clearTable db table w) = Inl h \<longrightarrow>
        h = \<lparr>message = ''Error clearing table in database'', statusCode = 500\<rparr>
      \<and> statusCode h = 500)"
proof -
  let ?scan = "ScanCommand (no_params\<lparr>TableName := Some table\<rparr>)"
  let ?requests = "map (\<lambda>item. DeleteRequest [(''id'', map_of item ''id'')]) items"
  let ?batch = "BatchWriteItemCommand (no_params\<lparr>RequestItems := Some [(table, WriteRequests ?requests)]\<rparr>)"
  let ?E = "\<lparr>message = ''Error clearing table in database'', statusCode = 500\<rparr>"
  let ?w1 = "w\<lparr>remote := s', sent := sent w @ [?scan]\<rparr>"
  have E: "http_error ''Error clearing table in database'' 500 = ?E"
    by (simp add: http_error_def)
  have rejected: "sent (snd (clearTable db table w)) = sent w @ [?scan]
      \<and> fst (clearTable db table w) = Inl ?E"
    if "client db ?scan (remote w) = (Inl e, s')"
    by (simp add: clearTable_rejected [OF that] sent_log_dev E)
  have no_items: "sent (snd (clearTable db table w)) = sent w @ [?scan]
      \<and> fst (clearTable db table w) = Inl ?E"
    if "client db ?scan (remote w) = (Inr res, s') \<and> Items res = None"
  proof -
    from that have c: "client db ?scan (remote w) = (Inr res, s')" and i: "Items res = None"
      by simp_all
    show ?thesis
      by (simp add: clearTable_no_items [OF c i] sent_log_dev E)
  qed
  have batch: "batchWrite_params table (map delete_request items) =
                 no_params\<lparr>RequestItems := Some [(table, WriteRequests ?requests)]\<rparr>"
    by (rule delete_batch_params)
  have with_items: "sent (snd (clearTable db table w)) = sent w @ [?scan, ?batch]
      \<and> (client db ?batch s' = (Inl e', s'') \<longrightarrow> fst (clearTable db table w) = Inl ?E)
      \<and> (client db ?batch s' = (Inr res', s'')
          \<and> UnprocessedItems res' = Some unprocessed \<and> map_of unprocessed table = Some left \<longrightarrow>
          fst (clearTable db table w) = Inl ?E)
      \<and> (client db ?batch s' = (Inr res', s'') \<and> UnprocessedItems res' = None \<longrightarrow>
          fst (clearTable db table w) = Inl ?E)
      \<and> (client db ?batch s' = (Inr res', s'')
          \<and> UnprocessedItems res' = Some unprocessed \<and> map_of unprocessed table = None
          \<and> table \<notin> set Object_prototype_members \<longrightarrow>
          fst (clearTable db table w) = Inr ())
      \<and> fst (clearTable db table w) =
          (case fst (batchWrite db table ?requests ?w1) of
             Inl h \<Rightarrow> Inl ?E
           | Inr written \<Rightarrow> Inr ())"
    if "client db ?scan (remote w) = (Inr res, s') \<and> Items res = Some items"
  proof -
    from that have c: "client db ?scan (remote w) = (Inr res, s')" and i: "Items res = Some items"
      by simp_all
    have trace: "sent (snd (clearTable db table w)) = sent w @ [?scan, ?batch]"
      using clearTable_items(2) [OF c i] by (simp only: batch)
    have result: "fst (clearTable db table w) =
          (case fst (batchWrite db table ?requests ?w1) of
             Inl h \<Rightarrow> Inl ?E
           | Inr written \<Rightarrow> Inr ())"
      using clearTable_items(1) [OF c i] by (simp only: delete_requests E)
    have r: "fst (clearTable db table w) = Inl ?E"
      if "client db ?batch s' = (Inl e', s'')"
    proof -
      from that have "client db (BatchWriteItemCommand (batchWrite_params table ?requests))
                        (remote ?w1) = (Inl e', s'')"
        by (simp add: batchWrite_params_def)
      from batchWrite_rejected [OF this] show ?thesis
        by (simp add: result)
    qed
    have u: "fst (clearTable db table w) = Inl ?E"
      if "client db ?batch s' = (Inr res', s'')
          \<and> UnprocessedItems res' = Some unprocessed \<and> map_of unprocessed table = Some left"
    proof -
      from that have "client db (BatchWriteItemCommand (batchWrite_params table ?requests))
                        (remote ?w1) = (Inr res', s'')"
        and "UnprocessedItems res' = Some unprocessed" and "map_of unprocessed table = Some left"
        by (simp_all add: batchWrite_params_def)
      from batchWrite_unprocessed [OF this] show ?thesis
        by (simp add: result)
    qed
    have n: "fst (clearTable db table w) = Inl ?E"
      if "client db ?batch s' = (Inr res', s'') \<and> UnprocessedItems res' = None"
    proof -
      from that have "client db (BatchWriteItemCommand (batchWrite_params table ?requests))
                        (remote ?w1) = (Inr res', s'')"
        and "UnprocessedItems res' = None"
        by (simp_all add: batchWrite_params_def)
      from batchWrite_no_map [OF this] show ?thesis
        by (simp add: result)
    qed
    have p: "fst (clearTable db table w) = Inr ()"
      if "client db ?batch s' = (Inr res', s'')
          \<and> UnprocessedItems res' = Some unprocessed \<and> map_of unprocessed table = None
          \<and> table \<notin> set Object_prototype_members"
    proof -
      from that have "client db (BatchWriteItemCommand (batchWrite_params table ?requests))
                        (remote ?w1) = (Inr res', s'')"
        and "UnprocessedItems res' = Some unprocessed" and "map_of unprocessed table = None"
        and "table \<notin> set Object_prototype_members"
        by (simp_all add: batchWrite_params_def)
      from batchWrite_processed [OF this] show ?thesis
        by (simp add: result)
    qed
    show ?thesis
      apply (intro conjI)
           apply (rule trace)
          apply (rule impI, erule r)
         apply (rule impI, erule u)
        apply (rule impI, erule n)
       apply (rule impI, erule p)
      apply (rule result)
      done
  qed
  have thrown: "\<forall>h. fst (clearTable db table w) = Inl h \<longrightarrow> h = ?E \<and> statusCode h = 500"
    by (auto simp add: clearTable_def clearTable_catch_def try_catch_def http_error_def
        split: prod.splits sum.splits)
  show ?thesis
    apply (intro conjI)
       apply (rule impI, erule rejected)
      apply (rule impI, erule no_items)
     apply (rule impI, erule with_items)
    apply (rule thrown)
    done
qed

text \<open>
  Four runs on a table \<^verbatim>\<open>test\<close>. A scan that returns two items and a
  \<^verbatim>\<open>LastEvaluatedKey\<close>, which tells that the table has more: the two items are asked to
  be deleted by their \<^verbatim>\<open>id\<close> in one batch, no second scan is sent, and \<^verbatim>\<open>clearTable\<close>
  returns. A rejected scan: nothing follows it, and status 500 is thrown. The same
  scan followed by a rejected batch write, and by one that leaves an item unprocessed:
  status 500 is thrown.
\<close>

theorem clearTable_scan_then_batch_delete_witness:
  "sent (snd (clearTable
       \<lparr>client = responding (no_response\<lparr>
           Items := Some [[(''id'', ''a''), (''name'', ''X'')], [(''id'', ''b''), (''name'', ''Y'')]],
           UnprocessedItems := Some [],
           LastEvaluatedKey := Some [(''id'', ''b'')]\<rparr>),
         dev = False\<rparr>
       ''test'' start))
     = [ScanCommand (no_params\<lparr>TableName := Some ''test''\<rparr>),
        BatchWriteItemCommand
          (no_params\<lparr>RequestItems :=
             Some [(''test'', WriteRequests [DeleteRequest [(''id'', Some ''a'')],
                                             DeleteRequest [(''id'', Some ''b'')]])]\<rparr>)]
   \<and> fst (clearTable
       \<lparr>client = responding (no_response\<lparr>
           Items := Some [[(''id'', ''a''), (''name'', ''X'')], [(''id'', ''b''), (''name'', ''Y'')]],
           UnprocessedItems := Some [],
           LastEvaluatedKey := Some [(''id'', ''b'')]\<rparr>),
         dev = False\<rparr>
       ''test'' start)
     = Inr ()
   \<and> sent (snd (clearTable \<lparr>client = rejecting ''ResourceNotFoundException'', dev = False\<rparr>
                   ''test'' (start :: (unit, string) run)))
     = [ScanCommand (no_params\<lparr>TableName := Some ''test''\<rparr>)]
   \<and> fst (clearTable \<lparr>client = rejecting ''ResourceNotFoundException'', dev = False\<rparr>
            ''test'' (start :: (unit, string) run))
     = Inl \<lparr>message = ''Error clearing table in database'', statusCode = 500\<rparr>
   \<and> fst (clearTable
       \<lparr>client = scanning (no_response\<lparr>
           Items := Some [[(''id'', ''a''), (''name'', ''X'')], [(''id'', ''b''), (''name'', ''Y'')]]\<rparr>)
           ''ProvisionedThroughputExceededException'',
         dev = False\<rparr>
       ''test'' start)
     = Inl \<lparr>message = ''Error clearing table in database'', statusCode = 500\<rparr>
   \<and> fst (clearTable
       \<lparr>client = responding (no_response\<lparr>
           Items := Some [[(''id'', ''a''), (''name'', ''X'')], [(''id'', ''b''), (''name'', ''Y'')]],
           UnprocessedItems := Some [(''test'', [DeleteRequest [(''id'', Some ''b'')]])]\<rparr>),
         dev = False\<rparr>
       ''test'' start)
     = Inl \<lparr>message = ''Error clearing table in database'', statusCode = 500\<rparr>"
proof -
  let ?items = "[[(''id'', ''a''), (''name'', ''X'')], [(''id'', ''b''), (''name'', ''Y'')]]"
  let ?scan = "ScanCommand (no_params\<lparr>TableName := Some ''test''\<rparr>) :: string command"
  let ?ok = "no_response\<lparr>Items := Some ?items, UnprocessedItems := Some [],
               LastEvaluatedKey := Some [(''id'', ''b'')]\<rparr> :: string response"
  let ?page = "no_response\<lparr>Items := Some ?items\<rparr> :: string response"
  let ?left = "[DeleteRequest [(''id'', Some ''b'')]] :: string write_request list"
  let ?partial = "no_response\<lparr>Items := Some ?items,
                    UnprocessedItems := Some [(''test'', ?left)]\<rparr> :: string response"
  let ?down = "\<lparr>name = ''ResourceNotFoundException'', detail = ''''\<rparr>"
  let ?busy = "\<lparr>name = ''ProvisionedThroughputExceededException'', detail = ''''\<rparr>"
  let ?A = "\<lparr>client = responding ?ok, dev = False\<rparr> :: (unit, string) DynamoDB"
  let ?B = "\<lparr>client = rejecting ''ResourceNotFoundException'', dev = False\<rparr>
              :: (unit, string) DynamoDB"
  let ?C = "\<lparr>client = scanning ?page ''ProvisionedThroughputExceededException'', dev = False\<rparr>
              :: (unit, string) DynamoDB"
  let ?D = "\<lparr>client = responding ?partial, dev = False\<rparr> :: (unit, string) DynamoDB"
  have member: "''test'' \<notin> set Object_prototype_members"
    by (simp add: Object_prototype_members_def)
  have batch: "map (\<lambda>item. DeleteRequest [(''id'', map_of item ''id'')]) ?items =
                 [DeleteRequest [(''id'', Some ''a'')], DeleteRequest [(''id'', Some ''b'')]]"
    by simp
  have scanA: "client ?A ?scan (remote start) = (Inr ?ok, ()) \<and> Items ?ok = Some ?items"
    by (simp add: responding_def)
  note A = clearTable_scan_then_batch_delete [where db = ?A and table = "''test''" and w = start
      and res = ?ok and s' = "()" and items = ?items and res' = ?ok and s'' = "()"
      and unprocessed = "[]", THEN conjunct2, THEN conjunct2, THEN conjunct1, THEN mp, OF scanA]
  have A1: "sent (snd (clearTable ?A ''test'' start)) =
             [?scan,
              BatchWriteItemCommand
                (no_params\<lparr>RequestItems :=
                   Some [(''test'', WriteRequests [DeleteRequest [(''id'', Some ''a'')],
                                                   DeleteRequest [(''id'', Some ''b'')]])]\<rparr>)]"
    using A [THEN conjunct1] by (simp only: batch) (simp add: start_def)
  have processed: "client ?A
          (BatchWriteItemCommand
             (no_params\<lparr>RequestItems :=
                Some [(''test'', WriteRequests
                         (map (\<lambda>item. DeleteRequest [(''id'', map_of item ''id'')]) ?items))]\<rparr>))
          () = (Inr ?ok, ())
        \<and> UnprocessedItems ?ok = Some [] \<and> map_of [] ''test'' = None
        \<and> ''test'' \<notin> set Object_prototype_members"
    using member by (simp add: responding_def)
  have A2: "fst (clearTable ?A ''test'' start) = Inr ()"
    by (rule A [THEN conjunct2, THEN conjunct2, THEN conjunct2, THEN conjunct2, THEN conjunct1,
          THEN mp, OF processed])
  have scanB: "client ?B ?scan (remote start) = (Inl ?down, ())"
    by (simp add: rejecting_def)
  note B = clearTable_scan_then_batch_delete [where db = ?B and table = "''test''" and w = start
      and e = ?down and s' = "()", THEN conjunct1, THEN mp, OF scanB]
  have B1: "sent (snd (clearTable ?B ''test'' start)) = [?scan]"
    using B [THEN conjunct1] by (simp add: start_def)
  have B2: "fst (clearTable ?B ''test'' start) =
              Inl \<lparr>message = ''Error clearing table in database'', statusCode = 500\<rparr>"
    by (rule B [THEN conjunct2])
  have scanC: "client ?C ?scan (remote start) = (Inr ?page, ()) \<and> Items ?page = Some ?items"
    by (simp add: scanning_def)
  have busy: "client ?C
          (BatchWriteItemCommand
             (no_params\<lparr>RequestItems :=
                Some [(''test'', WriteRequests
                         (map (\<lambda>item. DeleteRequest [(''id'', map_of item ''id'')]) ?items))]\<rparr>))
          () = (Inl ?busy, ())"
    by (simp add: scanning_def)
  have C: "fst (clearTable ?C ''test'' start) =
             Inl \<lparr>message = ''Error clearing table in database'', statusCode = 500\<rparr>"
    by (rule clearTable_scan_then_batch_delete [where db = ?C and table = "''test''" and w = start
          and res = ?page and s' = "()" and items = ?items and e' = ?busy and s'' = "()",
          THEN conjunct2, THEN conjunct2, THEN conjunct1, THEN mp, OF scanC,
          THEN conjunct2, THEN conjunct1, THEN mp, OF busy])
  have scanD: "client ?D ?scan (remote start) = (Inr ?partial, ()) \<and> Items ?partial = Some ?items"
    by (simp add: responding_def)
  have partial: "client ?D
          (BatchWriteItemCommand
             (no_params\<lparr>RequestItems :=
                Some [(''test'', WriteRequests
                         (map (\<lambda>item. DeleteRequest [(''id'', map_of item ''id'')]) ?items))]\<rparr>))
          () = (Inr ?partial, ())
        \<and> UnprocessedItems ?partial = Some [(''test'', ?left)]
        \<and> map_of [(''test'', ?left)] ''test'' = Some ?left"
    by (simp add: responding_def)
  have D: "fst (clearTable ?D ''test'' start) =
             Inl \<lparr>message = ''Error clearing table in database'', statusCode = 500\<rparr>"
    by (rule clearTable_scan_then_batch_delete [where db = ?D and table = "''test''" and w = start
          and res = ?partial and s' = "()" and items = ?items and res' = ?partial and s'' = "()"
          and unprocessed = "[(''test'', ?left)]" and left = ?left,
          THEN conjunct2, THEN conjunct2, THEN conjunct1, THEN mp, OF scanD,
          THEN conjunct2, THEN conjunct2, THEN conjunct1, THEN mp, OF partial])
  show ?thesis
    apply (intro conjI)
         apply (rule A1)
        apply (rule A2)
       apply (rule B1)
      apply (rule B2)
     apply (rule C)
    apply (rule D)
    done
qed

text \<open>
  Claim C10. When the scan of \<^verbatim>\<open>clearTable\<close> returns items, the batch write that follows
  has, for each item, a delete request whose key is the object with the single
  property \<^verbatim>\<open>id\<close>, holding the item's \<^verbatim>\<open>id\<close> attribute (\<^verbatim>\<open>undefined\<close> if the item has
  none); the batch write has no other parameter than these requests under the table
  name.
\<close>

theorem clearTable_key_is_id:
  assumes "client db (ScanCommand (no_params\<lparr>TableName := Some table\<rparr>)) (remote w) = (Inr res, s')"
    and "Items res = Some items"
  shows "sent (snd (clearTable db table w)) =
           sent w @
           [ScanCommand (no_params\<lparr>TableName := Some table\<rparr>),
            BatchWriteItemCommand
              (no_params\<lparr>RequestItems :=
                 Some [(table, WriteRequests
                          (map (\<lambda>item. DeleteRequest [(''id'', map_of item ''id'')]) items))]\<rparr>)]"
proof -
  have "batchWrite_params table (map delete_request items) =
          no_params\<lparr>RequestItems :=
            Some [(table, WriteRequests
                     (map (\<lambda>item. DeleteRequest [(''id'', map_of item ''id'')]) items))]\<rparr>"
    by (simp add: batchWrite_params_def delete_request_def)
  with clearTable_items(2) [OF assms] show ?thesis by simp
qed

text \<open>
  A table keyed by \<^verbatim>\<open>pk\<close> and \<^verbatim>\<open>sk\<close>: the first item is asked to be deleted by its
  \<^verbatim>\<open>id\<close> attribute alone, the second, which has none, by \<^verbatim>\<open>undefined\<close>.
\<close>

theorem clearTable_key_is_id_witness:
  "sent (snd (clearTable
       \<lparr>client = responding (no_response\<lparr>
           Items := Some [[(''pk'', ''p1''), (''sk'', ''s1''), (''id'', ''a'')],
                          [(''pk'', ''p2''), (''sk'', ''s2'')]],
           UnprocessedItems := Some []\<rparr>),
         dev = False\<rparr>
       ''orders'' start))
     = [ScanCommand (no_params\<lparr>TableName := Some ''orders''\<rparr>),
        BatchWriteItemCommand
          (no_params\<lparr>RequestItems :=
             Some [(''orders'', WriteRequests [DeleteRequest [(''id'', Some ''a'')],
                                               DeleteRequest [(''id'', None)]])]\<rparr>)]"
proof -
  let ?items = "[[(''pk'', ''p1''), (''sk'', ''s1''), (''id'', ''a'')],
                 [(''pk'', ''p2''), (''sk'', ''s2'')]]"
  let ?res = "no_response\<lparr>Items := Some ?items, UnprocessedItems := Some []\<rparr> :: string response"
  let ?db = "\<lparr>client = responding ?res, dev = False\<rparr> :: (unit, string) DynamoDB"
  have h1: "client ?db (ScanCommand (no_params\<lparr>TableName := Some ''orders''\<rparr>)) (remote start) =
              (Inr ?res, ())"
    by (simp add: responding_def)
  have h2: "Items ?res = Some ?items"
    by simp
  show ?thesis
    using clearTable_key_is_id [OF h1 h2]
    by (simp add: start_def)
qed

section \<open>The development-mode flag\<close>

text \<open>
  Claim C8. For each of the ten operations and all arguments, the run with the flag
  set and the run with the flag cleared return the same value or throw the same error
  (message and status), leave the remote service in the same state and send it the
  same commands; and with the flag cleared nothing is printed.
\<close>

theorem dev_flag_only_logs:
  "outcome (set_op (db\<lparr>dev := True\<rparr>) table item condition w) =
     outcome (set_op (db\<lparr>dev := False\<rparr>) table item condition w)
   \<and> console (snd (set_op (db\<lparr>dev := False\<rparr>) table item condition w)) = console w
   \<and> outcome (get (db\<lparr>dev := True\<rparr>) table keys w) =
     outcome (get (db\<lparr>dev := False\<rparr>) table keys w)
   \<and> console (snd (get (db\<lparr>dev := False\<rparr>) table keys w)) = console w
   \<and> outcome (batchGet (db\<lparr>dev := True\<rparr>) table keyList projection w) =
     outcome (batchGet (db\<lparr>dev := False\<rparr>) table keyList projection w)
   \<and> console (snd (batchGet (db\<lparr>dev := False\<rparr>) table keyList projection w)) = console w
   \<and> outcome (batchWrite (db\<lparr>dev := True\<rparr>) table requests w) =
     outcome (batchWrite (db\<lparr>dev := False\<rparr>) table requests w)
   \<and> console (snd (batchWrite (db\<lparr>dev := False\<rparr>) table requests w)) = console w
   \<and> outcome (update (db\<lparr>dev := True\<rparr>) table keys updateExpression expressionAttributeNames
        expressionAttributeValues condition returnValues w) =
     outcome (update (db\<lparr>dev := False\<rparr>) table keys updateExpression expressionAttributeNames
        expressionAttributeValues condition returnValues w)
   \<and> console (snd (update (db\<lparr>dev := False\<rparr>) table keys updateExpression expressionAttributeNames
        expressionAttributeValues condition returnValues w)) = console w
   \<and> outcome (delete (db\<lparr>dev := True\<rparr>) table keys condition w) =
     outcome (delete (db\<lparr>dev := False\<rparr>) table keys condition w)
   \<and> console (snd (delete (db\<lparr>dev := False\<rparr>) table keys condition w)) = console w
   \<and> outcome (query (db\<lparr>dev := True\<rparr>) table keyCondition keys filter' filterValues w) =
     outcome (query (db\<lparr>dev := False\<rparr>) table keyCondition keys filter' filterValues w)
   \<and> console (snd (query (db\<lparr>dev := False\<rparr>) table keyCondition keys filter' filterValues w)) =
     console w
   \<and> outcome (queryByGSI (db\<lparr>dev := True\<rparr>) table indexName keyCondition attributeNames keys
        filter' filterValues w) =
     outcome (queryByGSI (db\<lparr>dev := False\<rparr>) table indexName keyCondition attributeNames keys
        filter' filterValues w)
   \<and> console (snd (queryByGSI (db\<lparr>dev := False\<rparr>) table indexName keyCondition attributeNames keys
        filter' filterValues w)) = console w
   \<and> outcome (scan (db\<lparr>dev := True\<rparr>) table filter' filterValues w) =
     outcome (scan (db\<lparr>dev := False\<rparr>) table filter' filterValues w)
   \<and> console (snd (scan (db\<lparr>dev := False\<rparr>) table filter' filterValues w)) = console w
   \<and> outcome (clearTable (db\<lparr>dev := True\<rparr>) table w) =
     outcome (clearTable (db\<lparr>dev := False\<rparr>) table w)
   \<and> console (snd (clearTable (db\<lparr>dev := False\<rparr>) table w)) = console w"
  by (simp add: set_op_dev get_dev batchGet_dev batchWrite_dev update_dev delete_dev query_dev
      queryByGSI_dev scan_dev clearTable_dev set_op_quiet get_quiet batchGet_quiet
      batchWrite_quiet update_quiet delete_quiet query_quiet queryByGSI_quiet scan_quiet
      clearTable_quiet)

text \<open>
  A \<^verbatim>\<open>get\<close> of a missing item: both runs throw the same 404; only the run in development
  mode prints, twice.
\<close>

theorem dev_flag_only_logs_witness:
  "fst (get \<lparr>client = responding no_response, dev = True\<rparr> ''test'' [(''id'', ''test3'')] start)
     = fst (get \<lparr>client = responding no_response, dev = False\<rparr> ''test'' [(''id'', ''test3'')] start)
   \<and> console (snd (get \<lparr>client = responding no_response, dev = False\<rparr>
                      ''test'' [(''id'', ''test3'')] start)) = []
   \<and> length (console (snd (get \<lparr>client = responding no_response, dev = True\<rparr>
                              ''test'' [(''id'', ''test3'')] start))) = 2"
proof -
  let ?db = "\<lparr>client = responding no_response, dev = True\<rparr> :: (unit, string) DynamoDB"
  have logged: "length (console (snd (get ?db ''test'' [(''id'', ''test3'')] start))) = 2"
    by (simp add: get_def get_try_def get_catch_def try_catch_def send_def log_dev_def
        responding_def no_response_def start_def)
  show ?thesis
    using logged
      dev_flag_only_logs [where db = ?db and table = "''test''" and keys = "[(''id'', ''test3'')]"
        and w = start]
    by (simp add: outcome_def start_def)
qed

end
